theory Spec2Isabelle
  imports Main
begin

section \<open>Python values\<close>

text \<open>
  The arguments of the CRUD methods are dynamically typed: the methods test them with
  \<^verbatim>\<open>is None\<close> and \<^verbatim>\<open>isinstance(_, dict)\<close>. They are modelled as values of
  \<open>pyval\<close>. A dict is an association list with string keys; \<open>PObjectId\<close> stands for
  a \<^verbatim>\<open>bson.ObjectId\<close> (floats are left out).
\<close>

datatype pyval =
    PNone
  | PBool bool
  | PInt int
  | PStr string
  | PObjectId nat
  | PList "pyval list"
  | PDict "(string \<times> pyval) list"

text \<open>Truth value testing, as \<^verbatim>\<open>if x:\<close> does it.\<close>

fun truthy :: "pyval \<Rightarrow> bool" where
  "truthy PNone = False"
| "truthy (PBool b) = b"
| "truthy (PInt i) = (i \<noteq> 0)"
| "truthy (PStr s) = (s \<noteq> [])"
| "truthy (PObjectId n) = True"
| "truthy (PList xs) = (xs \<noteq> [])"
| "truthy (PDict kvs) = (kvs \<noteq> [])"

text \<open>\<^verbatim>\<open>isinstance(x, dict)\<close>\<close>

fun isinstance_dict :: "pyval \<Rightarrow> bool" where
  "isinstance_dict (PDict kvs) = True"
| "isinstance_dict v = False"

text \<open>\<^verbatim>\<open>d.get(key, default)\<close> on a dict.\<close>

definition dict_get :: "(string \<times> pyval) list \<Rightarrow> string \<Rightarrow> pyval \<Rightarrow> pyval" where
  "dict_get d k dflt = (case map_of d k of Some v \<Rightarrow> v | None \<Rightarrow> dflt)"

text \<open>
  An optional string argument (\<^verbatim>\<open>None\<close> or a \<^verbatim>\<open>str\<close>) is a \<open>string option\<close>;
  \<^verbatim>\<open>None\<close> and the empty string are false.
\<close>

definition truthy_opt :: "string option \<Rightarrow> bool" where
  "truthy_opt a = (case a of None \<Rightarrow> False | Some s \<Rightarrow> s \<noteq> [])"

text \<open>\<^verbatim>\<open>a or b\<close> on optional strings.\<close>

definition py_or :: "string option \<Rightarrow> string option \<Rightarrow> string option" where
  "py_or a b = (if truthy_opt a then a else b)"

section \<open>Exceptions, messages, the engine\<close>

text \<open>
  Every exception of the model is an instance of \<^verbatim>\<open>Exception\<close>, so that
  \<^verbatim>\<open>except Exception\<close> catches each of them. \<open>EngineError\<close> is a fault raised by the
  database driver (class name and message).
\<close>

datatype exn = ValueError string | EngineError string string

text \<open>
  An f-string is the list of its pieces: literal text and formatted fields. The text that
  \<^verbatim>\<open>str()\<close> gives for a field is not modelled.
\<close>

datatype frag = Lit string | FStr string | FInt int | FVal pyval | FExn exn

type_synonym fstring = "frag list"

datatype level = INFO | WARNING | ERROR

text \<open>
  The driver's handles. \<^verbatim>\<open>MongoClient(uri)\<close> gives a client; \<^verbatim>\<open>client[name]\<close> and
  \<^verbatim>\<open>database[name]\<close> give the database and the collection handle of a name. The driver
  checks the name there and raises (\<^verbatim>\<open>InvalidName\<close>) on one that it does not accept, so
  both are calls that may raise, like every other call to the driver.
\<close>

datatype client = Client fstring
datatype database = Database client string
datatype collection = Collection database string

text \<open>The calls the store makes to the driver, as recorded in the trace.\<close>

datatype engine_call =
    CMongoClient fstring
  | CGetDatabase client string
  | CGetCollection database string
  | CCommand database string "string option"
  | CInsertOne collection pyval
  | CFind collection pyval
  | CUpdateMany collection pyval pyval
  | CUpdateOne collection pyval pyval
  | CDeleteMany collection pyval
  | CDeleteOne collection pyval
  | CCountDocuments collection pyval
  | CClose client

text \<open>
  The database engine is outside the repository: it is a parameter of the model, a record
  of functions on the server's state \<open>'w\<close>, each of which returns a value or raises.
  \<open>eng_get_database\<close> is \<^verbatim>\<open>client[name]\<close> and \<open>eng_get_collection\<close> is
  \<^verbatim>\<open>database[name]\<close>: when they do not raise, the handle is that of the name.
  \<open>eng_insert_one\<close> returns \<^verbatim>\<open>result.inserted_id\<close>, \<open>eng_find\<close> the list of the
  cursor, the update and delete calls \<^verbatim>\<open>result.modified_count\<close> and
  \<^verbatim>\<open>result.deleted_count\<close>, \<open>eng_command\<close> the reply document.
\<close>

record 'w engine =
  eng_MongoClient :: "fstring \<Rightarrow> 'w \<Rightarrow> (exn + unit) \<times> 'w"
  eng_get_database :: "client \<Rightarrow> string \<Rightarrow> 'w \<Rightarrow> (exn + unit) \<times> 'w"
  eng_get_collection :: "database \<Rightarrow> string \<Rightarrow> 'w \<Rightarrow> (exn + unit) \<times> 'w"
  eng_command :: "database \<Rightarrow> string \<Rightarrow> string option \<Rightarrow> 'w \<Rightarrow> (exn + (string \<times> pyval) list) \<times> 'w"
  eng_insert_one :: "collection \<Rightarrow> pyval \<Rightarrow> 'w \<Rightarrow> (exn + pyval) \<times> 'w"
  eng_find :: "collection \<Rightarrow> pyval \<Rightarrow> 'w \<Rightarrow> (exn + pyval list) \<times> 'w"
  eng_update_many :: "collection \<Rightarrow> pyval \<Rightarrow> pyval \<Rightarrow> 'w \<Rightarrow> (exn + int) \<times> 'w"
  eng_update_one :: "collection \<Rightarrow> pyval \<Rightarrow> pyval \<Rightarrow> 'w \<Rightarrow> (exn + int) \<times> 'w"
  eng_delete_many :: "collection \<Rightarrow> pyval \<Rightarrow> 'w \<Rightarrow> (exn + int) \<times> 'w"
  eng_delete_one :: "collection \<Rightarrow> pyval \<Rightarrow> 'w \<Rightarrow> (exn + int) \<times> 'w"
  eng_count_documents :: "collection \<Rightarrow> pyval \<Rightarrow> 'w \<Rightarrow> (exn + int) \<times> 'w"
  eng_close :: "client \<Rightarrow> 'w \<Rightarrow> (exn + unit) \<times> 'w"

section \<open>Computations with effects\<close>

text \<open>
  What a method can touch besides its own object: the server behind the driver, the
  records of the logger, and standard output. \<open>trace\<close> lists the driver calls made so
  far, in order.
\<close>

record 'w world =
  server :: 'w
  trace :: "engine_call list"
  logs :: "(level \<times> fstring) list"
  stdout :: "fstring list"

type_synonym ('w, 'a) py = "'w world \<Rightarrow> (exn + 'a) \<times> 'w world"

definition py_return :: "'a \<Rightarrow> ('w, 'a) py" where
  "py_return x = (\<lambda>w. (Inr x, w))"

definition py_raise :: "exn \<Rightarrow> ('w, 'a) py" where
  "py_raise e = (\<lambda>w. (Inl e, w))"

definition py_bind :: "('w, 'a) py \<Rightarrow> ('a \<Rightarrow> ('w, 'b) py) \<Rightarrow> ('w, 'b) py" where
  "py_bind m f = (\<lambda>w. case m w of (Inl e, w') \<Rightarrow> (Inl e, w') | (Inr x, w') \<Rightarrow> f x w')"

text \<open>\<^verbatim>\<open>try: m  except Exception as e: h e\<close>\<close>

definition try_except :: "('w, 'a) py \<Rightarrow> (exn \<Rightarrow> ('w, 'a) py) \<Rightarrow> ('w, 'a) py" where
  "try_except m h = (\<lambda>w. case m w of (Inl e, w') \<Rightarrow> h e w' | (Inr x, w') \<Rightarrow> (Inr x, w'))"

definition logger :: "level \<Rightarrow> fstring \<Rightarrow> ('w, unit) py" where
  "logger l msg = (\<lambda>w. (Inr (), w\<lparr>logs := logs w @ [(l, msg)]\<rparr>))"

definition print :: "fstring \<Rightarrow> ('w, unit) py" where
  "print msg = (\<lambda>w. (Inr (), w\<lparr>stdout := stdout w @ [msg]\<rparr>))"

text \<open>A driver call: it is recorded in the trace, then the engine answers.\<close>

definition invoke :: "engine_call \<Rightarrow> ('w \<Rightarrow> (exn + 'a) \<times> 'w) \<Rightarrow> ('w, 'a) py" where
  "invoke c f = (\<lambda>w. case f (server w) of
                       (r, sv) \<Rightarrow> (r, w\<lparr>server := sv, trace := trace w @ [c]\<rparr>))"

section \<open>MongoDBCRUD\<close>

text \<open>
  The object's attributes. \<open>database_name\<close> and \<open>collection_name\<close> are strings here:
  the constructor raises unless both are non-empty strings.
\<close>

record MongoDBCRUD =
  username :: "string option"
  password :: "string option"
  host :: string
  port :: int
  database_name :: string
  collection_name :: string
  auth_source :: string
  client :: client
  database :: database
  collection :: collection

text \<open>The constructor's arguments; \<open>None\<close> is Python's \<^verbatim>\<open>None\<close>.\<close>

record init_args =
  arg_username :: "string option"
  arg_password :: "string option"
  arg_host :: "string option"
  arg_port :: "int option"
  arg_database_name :: "string option"
  arg_collection_name :: "string option"
  arg_auth_source :: string

text \<open>
  \<^verbatim>\<open>_connect\<close>: the attributes set by \<^verbatim>\<open>__init__\<close> so far are its arguments; it
  returns the finished object.
\<close>

definition connection_string ::
  "string option \<Rightarrow> string option \<Rightarrow> string \<Rightarrow> int \<Rightarrow> string \<Rightarrow> fstring" where
  "connection_string u p h pt au =
     (case (u, p) of
        (Some us, Some pw) \<Rightarrow>
          if us \<noteq> [] \<and> pw \<noteq> []
          then [Lit ''mongodb://'', FStr us, Lit '':'', FStr pw, Lit ''@'', FStr h, Lit '':'',
                FInt pt, Lit ''/?authSource='', FStr au]
          else [Lit ''mongodb://'', FStr h, Lit '':'', FInt pt]
      | _ \<Rightarrow> [Lit ''mongodb://'', FStr h, Lit '':'', FInt pt])"

definition connect ::
  "'w engine \<Rightarrow> string option \<Rightarrow> string option \<Rightarrow> string \<Rightarrow> int \<Rightarrow> string \<Rightarrow> string \<Rightarrow> string
     \<Rightarrow> ('w, MongoDBCRUD) py" where
  "connect E u p h pt dbn cn au =
     try_except
       (let cs = connection_string u p h pt au in
        py_bind (invoke (CMongoClient cs) (eng_MongoClient E cs)) (\<lambda>_.
          let cl = Client cs in
          py_bind (invoke (CGetDatabase cl dbn) (eng_get_database E cl dbn)) (\<lambda>_.
          let db = Database cl dbn in
          py_bind (invoke (CGetCollection db cn) (eng_get_collection E db cn)) (\<lambda>_.
          let co = Collection db cn in
          py_bind (invoke (CCommand db ''ping'' None) (eng_command E db ''ping'' None)) (\<lambda>_.
          py_bind (logger INFO [Lit ''Successfully connected to MongoDB: '', FStr dbn, Lit ''.'', FStr cn]) (\<lambda>_.
          py_bind (print [Lit ''Connection to MongoDB successful: '', FStr dbn, Lit ''.'', FStr cn]) (\<lambda>_.
          py_return \<lparr>username = u, password = p, host = h, port = pt, database_name = dbn,
                     collection_name = cn, auth_source = au, client = cl, database = db,
                     collection = co\<rparr>)))))))
       (\<lambda>e. py_bind (logger ERROR [Lit ''Error connecting to MongoDB: '', FExn e]) (\<lambda>_.
             py_bind (print [Lit ''Error connecting to MongoDB: '', FExn e]) (\<lambda>_.
             py_raise e)))"

text \<open>
  \<^verbatim>\<open>__init__\<close>. \<open>env\<close> is the process environment read by \<^verbatim>\<open>os.getenv\<close>;
  \<open>int_str\<close> is Python's \<^verbatim>\<open>int()\<close> on a string, which raises on a string that is not a
  number.
\<close>

definition env_port :: "(string \<Rightarrow> exn + int) \<Rightarrow> (string \<rightharpoonup> string) \<Rightarrow> ('w, int) py" where
  "env_port int_str env =
     (case env ''MONGO_PORT'' of
        None \<Rightarrow> py_return 27017
      | Some s \<Rightarrow> (case int_str s of Inl e \<Rightarrow> py_raise e | Inr n \<Rightarrow> py_return n))"

definition resolve_port ::
  "(string \<Rightarrow> exn + int) \<Rightarrow> (string \<rightharpoonup> string) \<Rightarrow> int option \<Rightarrow> ('w, int) py" where
  "resolve_port int_str env pt =
     (case pt of
        Some n \<Rightarrow> if n \<noteq> 0 then py_return n else env_port int_str env
      | None \<Rightarrow> env_port int_str env)"

definition resolve_host :: "(string \<rightharpoonup> string) \<Rightarrow> string option \<Rightarrow> string" where
  "resolve_host env h =
     (case h of
        Some s \<Rightarrow> if s \<noteq> [] then s
                  else (case env ''MONGO_HOST'' of Some v \<Rightarrow> v | None \<Rightarrow> ''localhost'')
      | None \<Rightarrow> (case env ''MONGO_HOST'' of Some v \<Rightarrow> v | None \<Rightarrow> ''localhost''))"

definition MongoDBCRUD_init ::
  "'w engine \<Rightarrow> (string \<Rightarrow> exn + int) \<Rightarrow> (string \<rightharpoonup> string) \<Rightarrow> init_args \<Rightarrow> ('w, MongoDBCRUD) py" where
  "MongoDBCRUD_init E int_str env a =
     (let u = py_or (arg_username a) (env ''MONGO_USERNAME'');
          p = py_or (arg_password a) (env ''MONGO_PASSWORD'');
          h = resolve_host env (arg_host a)
      in py_bind (resolve_port int_str env (arg_port a)) (\<lambda>pt.
         let dbn = py_or (arg_database_name a) (env ''MONGO_DATABASE'');
             cn = py_or (arg_collection_name a) (env ''MONGO_COLLECTION'');
             au = arg_auth_source a
         in case dbn of
              None \<Rightarrow> py_raise (ValueError ''Database name is required'')
            | Some dbs \<Rightarrow>
                if dbs = [] then py_raise (ValueError ''Database name is required'')
                else (case cn of
                        None \<Rightarrow> py_raise (ValueError ''Collection name is required'')
                      | Some cs \<Rightarrow>
                          if cs = [] then py_raise (ValueError ''Collection name is required'')
                          else connect E u p h pt dbs cs au)))"

text \<open>
  \<^verbatim>\<open>switch_collection\<close> and \<^verbatim>\<open>switch_database\<close> assign attributes of the object and
  have no \<^verbatim>\<open>try\<close>: an exception of the driver leaves the method at once, with the
  attributes assigned so far. The model returns the outcome, the object after the call and
  the world.
\<close>

definition set_database ::
  "'w engine \<Rightarrow> MongoDBCRUD \<Rightarrow> string \<Rightarrow> 'w world \<Rightarrow> (exn + unit) \<times> MongoDBCRUD \<times> 'w world" where
  \<comment> \<open>\<^verbatim>\<open>self.database = self.client[name]\<close>\<close>
  "set_database E s name w =
     (case invoke (CGetDatabase (client s) name) (eng_get_database E (client s) name) w of
        (Inl e, w1) \<Rightarrow> (Inl e, s, w1)
      | (Inr _, w1) \<Rightarrow> (Inr (), s\<lparr>database := Database (client s) name\<rparr>, w1))"

definition set_collection ::
  "'w engine \<Rightarrow> MongoDBCRUD \<Rightarrow> string \<Rightarrow> 'w world \<Rightarrow> (exn + unit) \<times> MongoDBCRUD \<times> 'w world" where
  \<comment> \<open>\<^verbatim>\<open>self.collection = self.database[name]\<close>\<close>
  "set_collection E s name w =
     (case invoke (CGetCollection (database s) name) (eng_get_collection E (database s) name) w of
        (Inl e, w1) \<Rightarrow> (Inl e, s, w1)
      | (Inr _, w1) \<Rightarrow> (Inr (), s\<lparr>collection := Collection (database s) name\<rparr>, w1))"

definition switch_collection ::
  "'w engine \<Rightarrow> MongoDBCRUD \<Rightarrow> string \<Rightarrow> 'w world \<Rightarrow> (exn + unit) \<times> MongoDBCRUD \<times> 'w world" where
  "switch_collection E s new_collection_name w =
     (let s1 = s\<lparr>collection_name := new_collection_name\<rparr> in
      case set_collection E s1 new_collection_name w of
        (Inl e, s2, w1) \<Rightarrow> (Inl e, s2, w1)
      | (Inr _, s2, w1) \<Rightarrow>
          (case print [Lit ''Switched to collection: '', FStr new_collection_name] w1 of
             (r, w2) \<Rightarrow> (r, s2, w2)))"

definition switch_database ::
  "'w engine \<Rightarrow> MongoDBCRUD \<Rightarrow> string \<Rightarrow> string option \<Rightarrow> 'w world
     \<Rightarrow> (exn + unit) \<times> MongoDBCRUD \<times> 'w world" where
  "switch_database E s new_database_name new_collection_name w =
     (let s1 = s\<lparr>database_name := new_database_name\<rparr> in
      case set_database E s1 new_database_name w of
        (Inl e, s2, w1) \<Rightarrow> (Inl e, s2, w1)
      | (Inr _, s2, w1) \<Rightarrow>
          (case (case new_collection_name of
                   Some n \<Rightarrow>
                     if n \<noteq> []
                     then set_collection E (s2\<lparr>collection_name := n\<rparr>) n w1
                     else set_collection E s2 (collection_name s2) w1
                 | None \<Rightarrow> set_collection E s2 (collection_name s2) w1) of
             (Inl e, s3, w2) \<Rightarrow> (Inl e, s3, w2)
           | (Inr _, s3, w2) \<Rightarrow>
               (case print [Lit ''Switched to database: '', FStr new_database_name, Lit ''.'',
                            FStr (collection_name s3)] w2 of
                  (r, w3) \<Rightarrow> (r, s3, w3))))"

definition create :: "'w engine \<Rightarrow> MongoDBCRUD \<Rightarrow> pyval \<Rightarrow> ('w, bool) py" where
  "create E s data =
     try_except
       (if data \<noteq> PNone \<and> isinstance_dict data
        then py_bind (invoke (CInsertOne (collection s) data)
                        (eng_insert_one E (collection s) data)) (\<lambda>inserted_id.
               if truthy inserted_id
               then py_bind (logger INFO [Lit ''Document inserted with ID: '', FVal inserted_id]) (\<lambda>_.
                    py_return True)
               else py_return False)
        else py_bind (logger WARNING [Lit ''Invalid data provided for create operation'']) (\<lambda>_.
             py_bind (print [Lit ''Error: Data parameter must be a non-empty dictionary'']) (\<lambda>_.
             py_return False)))
       (\<lambda>e. py_bind (logger ERROR [Lit ''Error inserting document: '', FExn e]) (\<lambda>_.
             py_bind (print [Lit ''Error inserting document: '', FExn e]) (\<lambda>_.
             py_return False)))"

definition read :: "'w engine \<Rightarrow> MongoDBCRUD \<Rightarrow> pyval \<Rightarrow> ('w, pyval list) py" where
  "read E s query0 =
     try_except
       (let query = (if query0 = PNone then PDict [] else query0) in
        if isinstance_dict query
        then py_bind (invoke (CFind (collection s) query) (eng_find E (collection s) query))
               (\<lambda>result_list.
               py_bind (logger INFO [Lit ''Found '', FInt (int (length result_list)),
                                     Lit '' documents'']) (\<lambda>_.
               py_return result_list))
        else py_bind (logger WARNING [Lit ''Invalid query provided for read operation'']) (\<lambda>_.
             py_bind (print [Lit ''Error: Query parameter must be a dictionary'']) (\<lambda>_.
             py_return [])))
       (\<lambda>e. py_bind (logger ERROR [Lit ''Error querying documents: '', FExn e]) (\<lambda>_.
             py_bind (print [Lit ''Error querying documents: '', FExn e]) (\<lambda>_.
             py_return [])))"

definition update ::
  "'w engine \<Rightarrow> MongoDBCRUD \<Rightarrow> pyval \<Rightarrow> pyval \<Rightarrow> bool \<Rightarrow> ('w, int) py" where
  "update E s query update_data update_many =
     try_except
       (if query \<noteq> PNone \<and> isinstance_dict query \<and>
           update_data \<noteq> PNone \<and> isinstance_dict update_data
        then py_bind
               (if update_many
                then invoke (CUpdateMany (collection s) query (PDict [(''$set'', update_data)]))
                       (eng_update_many E (collection s) query (PDict [(''$set'', update_data)]))
                else invoke (CUpdateOne (collection s) query (PDict [(''$set'', update_data)]))
                       (eng_update_one E (collection s) query (PDict [(''$set'', update_data)])))
               (\<lambda>modified_count.
               py_bind (logger INFO [Lit ''Updated '', FInt modified_count, Lit '' documents'']) (\<lambda>_.
               py_return modified_count))
        else py_bind (logger WARNING [Lit ''Invalid parameters provided for update operation'']) (\<lambda>_.
             py_bind (print [Lit ''Error: Both query and update_data parameters must be dictionaries'']) (\<lambda>_.
             py_return 0)))
       (\<lambda>e. py_bind (logger ERROR [Lit ''Error updating documents: '', FExn e]) (\<lambda>_.
             py_bind (print [Lit ''Error updating documents: '', FExn e]) (\<lambda>_.
             py_return 0)))"

definition delete :: "'w engine \<Rightarrow> MongoDBCRUD \<Rightarrow> pyval \<Rightarrow> bool \<Rightarrow> ('w, int) py" where
  "delete E s query delete_many =
     try_except
       (if query \<noteq> PNone \<and> isinstance_dict query
        then py_bind
               (if delete_many
                then invoke (CDeleteMany (collection s) query)
                       (eng_delete_many E (collection s) query)
                else invoke (CDeleteOne (collection s) query)
                       (eng_delete_one E (collection s) query))
               (\<lambda>deleted_count.
               py_bind (logger INFO [Lit ''Deleted '', FInt deleted_count, Lit '' documents'']) (\<lambda>_.
               py_return deleted_count))
        else py_bind (logger WARNING [Lit ''Invalid query provided for delete operation'']) (\<lambda>_.
             py_bind (print [Lit ''Error: Query parameter must be a dictionary'']) (\<lambda>_.
             py_return 0)))
       (\<lambda>e. py_bind (logger ERROR [Lit ''Error deleting documents: '', FExn e]) (\<lambda>_.
             py_bind (print [Lit ''Error deleting documents: '', FExn e]) (\<lambda>_.
             py_return 0)))"

definition count_documents :: "'w engine \<Rightarrow> MongoDBCRUD \<Rightarrow> pyval \<Rightarrow> ('w, int) py" where
  "count_documents E s query0 =
     try_except
       (let query = (if query0 = PNone then PDict [] else query0) in
        if isinstance_dict query
        then py_bind (invoke (CCountDocuments (collection s) query)
                        (eng_count_documents E (collection s) query)) (\<lambda>count.
             py_return count)
        else py_bind (print [Lit ''Error: Query parameter must be a dictionary'']) (\<lambda>_.
             py_return 0))
       (\<lambda>e. py_bind (logger ERROR [Lit ''Error counting documents: '', FExn e]) (\<lambda>_.
             py_bind (print [Lit ''Error counting documents: '', FExn e]) (\<lambda>_.
             py_return 0)))"

text \<open>
  \<^verbatim>\<open>close_connection\<close> returns \<^verbatim>\<open>None\<close>. A \<^verbatim>\<open>MongoClient\<close> object is true, so
  the test \<^verbatim>\<open>if self.client:\<close> always passes on a constructed object.
\<close>

definition close_connection :: "'w engine \<Rightarrow> MongoDBCRUD \<Rightarrow> ('w, unit) py" where
  "close_connection E s =
     try_except
       (py_bind (invoke (CClose (client s)) (eng_close E (client s))) (\<lambda>_.
        py_bind (logger INFO [Lit ''MongoDB connection closed'']) (\<lambda>_.
        py_bind (print [Lit ''MongoDB connection closed successfully'']) (\<lambda>_.
        py_return ()))))
       (\<lambda>e. py_bind (logger ERROR [Lit ''Error closing connection: '', FExn e]) (\<lambda>_.
             py_bind (print [Lit ''Error closing connection: '', FExn e]) (\<lambda>_.
             py_return ())))"

definition get_collection_info ::
  "'w engine \<Rightarrow> MongoDBCRUD \<Rightarrow> ('w, (string \<times> pyval) list) py" where
  "get_collection_info E s =
     try_except
       (py_bind (invoke (CCommand (database s) ''collStats'' (Some (collection_name s)))
                   (eng_command E (database s) ''collStats'' (Some (collection_name s)))) (\<lambda>stats.
        py_return
          [(''database'', PStr (database_name s)),
           (''collection'', PStr (collection_name s)),
           (''document_count'', dict_get stats ''count'' (PInt 0)),
           (''size_bytes'', dict_get stats ''size'' (PInt 0)),
           (''avg_document_size'', dict_get stats ''avgObjSize'' (PInt 0))]))
       (\<lambda>e. py_bind (logger ERROR [Lit ''Error getting collection info: '', FExn e]) (\<lambda>_.
             py_return []))"

section \<open>AnimalShelter\<close>

text \<open>
  The subclass passes its arguments on and leaves \<^verbatim>\<open>auth_source\<close> at its default. Its
  own defaults are what a caller gets who omits an argument.
\<close>

definition AnimalShelter_defaults :: init_args where
  "AnimalShelter_defaults =
     \<lparr>arg_username = Some ''aacuser'', arg_password = Some ''SNHU1234'', arg_host = None,
      arg_port = None, arg_database_name = Some ''AAC'', arg_collection_name = Some ''animals'',
      arg_auth_source = ''admin''\<rparr>"

definition AnimalShelter_init ::
  "'w engine \<Rightarrow> (string \<Rightarrow> exn + int) \<Rightarrow> (string \<rightharpoonup> string) \<Rightarrow> init_args \<Rightarrow> ('w, MongoDBCRUD) py" where
  "AnimalShelter_init E int_str env a =
     MongoDBCRUD_init E int_str env (a\<lparr>arg_auth_source := ''admin''\<rparr>)"

definition rescue_criteria :: "(string \<times> pyval) list" where
  "rescue_criteria =
     [(''water'',
       PDict [(''animal_type'', PStr ''Dog''),
              (''breed'', PDict [(''$in'',
                 PList [PStr ''Labrador Retriever Mix'', PStr ''Chesapeake Bay Retriever'',
                        PStr ''Newfoundland'', PStr ''Portuguese Water Dog''])]),
              (''$expr'', PDict [(''$and'',
                 PList [PDict [(''$gte'', PList [PStr ''$age_upon_outcome_in_weeks'', PInt 26])],
                        PDict [(''$lte'', PList [PStr ''$age_upon_outcome_in_weeks'', PInt 156])]])])]),
      (''mountain'',
       PDict [(''animal_type'', PStr ''Dog''),
              (''breed'', PDict [(''$in'',
                 PList [PStr ''German Shepherd'', PStr ''Alaskan Malamute'',
                        PStr ''Old English Sheepdog'', PStr ''Siberian Husky'',
                        PStr ''Rottweiler''])]),
              (''$expr'', PDict [(''$and'',
                 PList [PDict [(''$gte'', PList [PStr ''$age_upon_outcome_in_weeks'', PInt 26])],
                        PDict [(''$lte'', PList [PStr ''$age_upon_outcome_in_weeks'', PInt 156])]])])]),
      (''disaster'',
       PDict [(''animal_type'', PStr ''Dog''),
              (''breed'', PDict [(''$in'',
                 PList [PStr ''Doberman Pinscher'', PStr ''German Shepherd'',
                        PStr ''Golden Retriever'', PStr ''Bloodhound'', PStr ''Rottweiler''])]),
              (''$expr'', PDict [(''$and'',
                 PList [PDict [(''$gte'', PList [PStr ''$age_upon_outcome_in_weeks'', PInt 20])],
                        PDict [(''$lte'', PList [PStr ''$age_upon_outcome_in_weeks'', PInt 300])]])])])]"

definition find_rescue_candidates ::
  "'w engine \<Rightarrow> MongoDBCRUD \<Rightarrow> string \<Rightarrow> ('w, pyval list) py" where
  "find_rescue_candidates E s rescue_type =
     (case map_of rescue_criteria rescue_type of
        Some q \<Rightarrow> read E s q
      | None \<Rightarrow> py_bind (print [Lit ''Unknown rescue type: '', FStr rescue_type]) (\<lambda>_.
                py_return []))"

section \<open>Sequences of calls\<close>

text \<open>
  A call of a public method on a constructed object, and what it does: the value returned
  (as a Python value) or the exception raised, the object after the call, and the world.
  Only the two switch methods assign attributes.
\<close>

datatype op =
    OpCreate pyval
  | OpRead pyval
  | OpUpdate pyval pyval bool
  | OpDelete pyval bool
  | OpCountDocuments pyval
  | OpCloseConnection
  | OpGetCollectionInfo
  | OpSwitchCollection string
  | OpSwitchDatabase string "string option"
  | OpFindRescueCandidates string

fun exec ::
  "'w engine \<Rightarrow> op \<Rightarrow> MongoDBCRUD \<Rightarrow> 'w world \<Rightarrow> (exn + pyval) \<times> MongoDBCRUD \<times> 'w world" where
  "exec E (OpCreate d) s w = (case create E s d w of (r, w') \<Rightarrow> (map_sum id PBool r, s, w'))"
| "exec E (OpRead q) s w = (case read E s q w of (r, w') \<Rightarrow> (map_sum id PList r, s, w'))"
| "exec E (OpUpdate q u m) s w =
     (case update E s q u m w of (r, w') \<Rightarrow> (map_sum id PInt r, s, w'))"
| "exec E (OpDelete q m) s w = (case delete E s q m w of (r, w') \<Rightarrow> (map_sum id PInt r, s, w'))"
| "exec E (OpCountDocuments q) s w =
     (case count_documents E s q w of (r, w') \<Rightarrow> (map_sum id PInt r, s, w'))"
| "exec E OpCloseConnection s w =
     (case close_connection E s w of (r, w') \<Rightarrow> (map_sum id (\<lambda>_. PNone) r, s, w'))"
| "exec E OpGetCollectionInfo s w =
     (case get_collection_info E s w of (r, w') \<Rightarrow> (map_sum id PDict r, s, w'))"
| "exec E (OpSwitchCollection n) s w =
     (case switch_collection E s n w of (r, s', w') \<Rightarrow> (map_sum id (\<lambda>_. PNone) r, s', w'))"
| "exec E (OpSwitchDatabase d n) s w =
     (case switch_database E s d n w of (r, s', w') \<Rightarrow> (map_sum id (\<lambda>_. PNone) r, s', w'))"
| "exec E (OpFindRescueCandidates t) s w =
     (case find_rescue_candidates E s t w of (r, w') \<Rightarrow> (map_sum id PList r, s, w'))"

text \<open>A sequence of calls stops at the first one that raises.\<close>

fun run ::
  "'w engine \<Rightarrow> op list \<Rightarrow> MongoDBCRUD \<Rightarrow> 'w world \<Rightarrow> (exn + unit) \<times> MongoDBCRUD \<times> 'w world" where
  "run E [] s w = (Inr (), s, w)"
| "run E (x # xs) s w =
     (case exec E x s w of
        (Inl e, s', w') \<Rightarrow> (Inl e, s', w')
      | (Inr v, s', w') \<Rightarrow> run E xs s' w')"

fun is_switch :: "op \<Rightarrow> bool" where
  "is_switch (OpSwitchCollection n) = True"
| "is_switch (OpSwitchDatabase d n) = True"
| "is_switch x = False"

section \<open>Engines to run the model on\<close>

text \<open>
  An engine whose server is down: every call raises, but for the handles of names, which
  the driver builds without the server.
\<close>

definition down :: exn where
  "down = EngineError ''ServerSelectionTimeoutError'' ''connection refused''"

definition failing_engine :: "unit engine" where
  "failing_engine =
     \<lparr>eng_MongoClient = (\<lambda>cs sv. (Inl down, sv)),
      eng_get_database = (\<lambda>cl n sv. (Inr (), sv)),
      eng_get_collection = (\<lambda>db n sv. (Inr (), sv)),
      eng_command = (\<lambda>db c a sv. (Inl down, sv)),
      eng_insert_one = (\<lambda>c d sv. (Inl down, sv)),
      eng_find = (\<lambda>c q sv. (Inl down, sv)),
      eng_update_many = (\<lambda>c q u sv. (Inl down, sv)),
      eng_update_one = (\<lambda>c q u sv. (Inl down, sv)),
      eng_delete_many = (\<lambda>c q sv. (Inl down, sv)),
      eng_delete_one = (\<lambda>c q sv. (Inl down, sv)),
      eng_count_documents = (\<lambda>c q sv. (Inl down, sv)),
      eng_close = (\<lambda>cl sv. (Inl down, sv))\<rparr>"

text \<open>
  A small in-memory engine. A server state is the list of stored documents, each with its
  collection, and the number of the next identifier. A query matches a document when every
  field of the query is a field of the document with an equal value (no operators). Like
  pymongo, the engine refuses the empty name for a database and for a collection, a space in
  the name of a database and a dollar sign in the name of a collection.
\<close>

record mem =
  docs :: "(collection \<times> (string \<times> pyval) list) list"
  next_id :: nat

definition invalid_name :: "string \<Rightarrow> exn" where
  "invalid_name n = EngineError ''InvalidName'' n"

definition mem_get_database :: "client \<Rightarrow> string \<Rightarrow> mem \<Rightarrow> (exn + unit) \<times> mem" where
  "mem_get_database cl n m =
     (if n = [] \<or> CHR '' '' \<in> set n then (Inl (invalid_name n), m) else (Inr (), m))"

definition mem_get_collection :: "database \<Rightarrow> string \<Rightarrow> mem \<Rightarrow> (exn + unit) \<times> mem" where
  "mem_get_collection db n m =
     (if n = [] \<or> CHR ''$'' \<in> set n then (Inl (invalid_name n), m) else (Inr (), m))"

definition matches :: "(string \<times> pyval) list \<Rightarrow> (string \<times> pyval) list \<Rightarrow> bool" where
  "matches q d = list_all (\<lambda>(k, v). map_of d k = Some v) q"

definition selected :: "collection \<Rightarrow> (string \<times> pyval) list \<Rightarrow> mem \<Rightarrow> (string \<times> pyval) list list" where
  "selected c q m = map snd (filter (\<lambda>(c', d). c' = c \<and> matches q d) (docs m))"

definition mem_insert_one :: "collection \<Rightarrow> pyval \<Rightarrow> mem \<Rightarrow> (exn + pyval) \<times> mem" where
  "mem_insert_one c data m =
     (case data of
        PDict d \<Rightarrow>
          (let i = (case map_of d ''_id'' of Some v \<Rightarrow> v | None \<Rightarrow> PObjectId (next_id m));
               d' = (case map_of d ''_id'' of Some v \<Rightarrow> d | None \<Rightarrow> (''_id'', i) # d)
           in if selected c [(''_id'', i)] m \<noteq> []
              then (Inl (EngineError ''DuplicateKeyError'' ''_id''), m)
              else (Inr i, m\<lparr>docs := docs m @ [(c, d')], next_id := Suc (next_id m)\<rparr>))
      | _ \<Rightarrow> (Inl (EngineError ''TypeError'' ''document must be a dict''), m))"

definition mem_find :: "collection \<Rightarrow> pyval \<Rightarrow> mem \<Rightarrow> (exn + pyval list) \<times> mem" where
  "mem_find c query m =
     (case query of
        PDict q \<Rightarrow> (Inr (map PDict (selected c q m)), m)
      | _ \<Rightarrow> (Inl (EngineError ''TypeError'' ''filter must be a dict''), m))"

definition mem_count :: "collection \<Rightarrow> pyval \<Rightarrow> mem \<Rightarrow> (exn + int) \<times> mem" where
  "mem_count c query m =
     (case query of
        PDict q \<Rightarrow> (Inr (int (length (selected c q m))), m)
      | _ \<Rightarrow> (Inl (EngineError ''TypeError'' ''filter must be a dict''), m))"

definition mem_delete_many :: "collection \<Rightarrow> pyval \<Rightarrow> mem \<Rightarrow> (exn + int) \<times> mem" where
  "mem_delete_many c query m =
     (case query of
        PDict q \<Rightarrow>
          (Inr (int (length (selected c q m))),
           m\<lparr>docs := filter (\<lambda>(c', d). \<not> (c' = c \<and> matches q d)) (docs m)\<rparr>)
      | _ \<Rightarrow> (Inl (EngineError ''TypeError'' ''filter must be a dict''), m))"

definition unsupported :: exn where
  "unsupported = EngineError ''OperationFailure'' ''not supported''"

definition mem_command ::
  "database \<Rightarrow> string \<Rightarrow> string option \<Rightarrow> mem \<Rightarrow> (exn + (string \<times> pyval) list) \<times> mem" where
  "mem_command db c a m =
     (if c = ''ping'' then (Inr [(''ok'', PInt 1)], m)
      else if c = ''collStats''
      then (case a of
              Some n \<Rightarrow> (Inr [(''count'', PInt (int (length (selected (Collection db n) [] m))))], m)
            | None \<Rightarrow> (Inl unsupported, m))
      else (Inl unsupported, m))"

definition mem_engine :: "mem engine" where
  "mem_engine =
     \<lparr>eng_MongoClient = (\<lambda>cs m. (Inr (), m)),
      eng_get_database = mem_get_database,
      eng_get_collection = mem_get_collection,
      eng_command = mem_command,
      eng_insert_one = mem_insert_one,
      eng_find = mem_find,
      eng_update_many = (\<lambda>c q u m. (Inl unsupported, m)),
      eng_update_one = (\<lambda>c q u m. (Inl unsupported, m)),
      eng_delete_many = mem_delete_many,
      eng_delete_one = (\<lambda>c q m. (Inl unsupported, m)),
      eng_count_documents = mem_count,
      eng_close = (\<lambda>cl m. (Inr (), m))\<rparr>"

text \<open>A constructed object and two initial worlds for the examples.\<close>

definition uri0 :: fstring where
  "uri0 = [Lit ''mongodb://'', FStr ''aacuser'', Lit '':'', FStr ''SNHU1234'', Lit ''@'',
           FStr ''localhost'', Lit '':'', FInt 27017, Lit ''/?authSource='', FStr ''admin'']"

definition store0 :: MongoDBCRUD where
  "store0 =
     \<lparr>username = Some ''aacuser'', password = Some ''SNHU1234'', host = ''localhost'',
      port = 27017, database_name = ''AAC'', collection_name = ''animals'',
      auth_source = ''admin'', client = Client uri0,
      database = Database (Client uri0) ''AAC'',
      collection = Collection (Database (Client uri0) ''AAC'') ''animals''\<rparr>"

definition world0 :: "unit world" where
  "world0 = \<lparr>server = (), trace = [], logs = [], stdout = []\<rparr>"

definition mem0 :: "mem world" where
  "mem0 = \<lparr>server = \<lparr>docs = [], next_id = 0\<rparr>, trace = [], logs = [], stdout = []\<rparr>"

text \<open>An engine that accepts the connection and then fails the liveness check.\<close>

definition ping_fails_engine :: "mem engine" where
  "ping_fails_engine = mem_engine\<lparr>eng_command := (\<lambda>db c a m. (Inl down, m))\<rparr>"

text \<open>An engine whose \<^verbatim>\<open>find\<close> answers every query with the same two documents.\<close>

definition two_dogs :: "pyval list" where
  "two_dogs =
     [PDict [(''_id'', PObjectId 7), (''animal_type'', PStr ''Dog''),
             (''breed'', PStr ''Newfoundland''), (''age_upon_outcome_in_weeks'', PInt 40)],
      PDict [(''_id'', PObjectId 8), (''animal_type'', PStr ''Dog''),
             (''breed'', PStr ''Rottweiler''), (''age_upon_outcome_in_weeks'', PInt 52)]]"

definition canned_engine :: "mem engine" where
  "canned_engine = mem_engine\<lparr>eng_find := (\<lambda>c q m. (Inr two_dogs, m))\<rparr>"

text \<open>
  Constructor arguments that are all \<^verbatim>\<open>None\<close>, an empty environment, and an
  \<^verbatim>\<open>int()\<close> that rejects every string (the examples never set \<^verbatim>\<open>MONGO_PORT\<close>).
\<close>

definition no_args :: init_args where
  "no_args =
     \<lparr>arg_username = None, arg_password = None, arg_host = None, arg_port = None,
      arg_database_name = None, arg_collection_name = None, arg_auth_source = ''admin''\<rparr>"

definition no_int :: "string \<Rightarrow> exn + int" where
  "no_int str = Inl (ValueError ''invalid literal for int() with base 10'')"

text \<open>\<open>store0\<close> after \<^verbatim>\<open>switch_collection("outcomes")\<close>.\<close>

definition store_outcomes :: MongoDBCRUD where
  "store_outcomes =
     store0\<lparr>collection_name := ''outcomes'',
            collection := Collection (Database (Client uri0) ''AAC'') ''outcomes''\<rparr>"

text \<open>\<open>store0\<close> after \<^verbatim>\<open>switch_database("Shelter")\<close>.\<close>

definition store_shelter :: MongoDBCRUD where
  "store_shelter =
     store0\<lparr>database_name := ''Shelter'', database := Database (Client uri0) ''Shelter'',
            collection := Collection (Database (Client uri0) ''Shelter'') ''animals''\<rparr>"

text \<open>A document, and the world after \<open>create\<close> has inserted it into the empty server.\<close>

definition rex :: "(string \<times> pyval) list" where
  "rex = [(''name'', PStr ''Rex''), (''breed'', PStr ''Newfoundland'')]"

definition mem_rex :: "mem world" where
  "mem_rex =
     \<lparr>server = \<lparr>docs = [(collection store0, (''_id'', PObjectId 0) # rex)], next_id = 1\<rparr>,
      trace = [CInsertOne (collection store0) (PDict rex)],
      logs = [(INFO, [Lit ''Document inserted with ID: '', FVal (PObjectId 0)])],
      stdout = []\<rparr>"

text \<open>A document that brings its own identifier, the number \<open>0\<close>.\<close>

definition counter_doc :: "(string \<times> pyval) list" where
  "counter_doc = [(''_id'', PInt 0), (''name'', PStr ''Rex'')]"

definition mem_counter :: mem where
  "mem_counter = \<lparr>docs = [(collection store0, counter_doc)], next_id = 1\<rparr>"

text \<open>
  \<open>store0\<close> after \<^verbatim>\<open>switch_collection("")\<close> has raised: the name is assigned, the
  handle is the one of before.
\<close>

definition store_unnamed :: MongoDBCRUD where
  "store_unnamed = store0\<lparr>collection_name := []\<rparr>"

text \<open>Constructor arguments with a database name that the in-memory engine refuses.\<close>

definition bad_db_args :: init_args where
  "bad_db_args = AnimalShelter_defaults\<lparr>arg_database_name := Some ''bad name''\<rparr>"

definition bad_coll_args :: init_args where
  "bad_coll_args = AnimalShelter_defaults\<lparr>arg_collection_name := Some ''a$b''\<rparr>"

section \<open>Notions used by the properties\<close>

text \<open>
  The query that the specification states for a rescue category: species \<open>Dog\<close>, breed in
  the given list, age in weeks from \<open>lo\<close> to \<open>hi\<close> inclusive, in the engine's dialect.
\<close>

definition criteria_query :: "string list \<Rightarrow> int \<Rightarrow> int \<Rightarrow> pyval" where
  "criteria_query breeds lo hi =
     PDict [(''animal_type'', PStr ''Dog''),
            (''breed'', PDict [(''$in'', PList (map PStr breeds))]),
            (''$expr'', PDict [(''$and'',
               PList [PDict [(''$gte'', PList [PStr ''$age_upon_outcome_in_weeks'', PInt lo])],
                      PDict [(''$lte'', PList [PStr ''$age_upon_outcome_in_weeks'', PInt hi])]])])]"

text \<open>The collection that a driver call addresses, if it addresses one.\<close>

fun addressed :: "engine_call \<Rightarrow> collection option" where
  "addressed (CInsertOne c d) = Some c"
| "addressed (CFind c q) = Some c"
| "addressed (CUpdateMany c q u) = Some c"
| "addressed (CUpdateOne c q u) = Some c"
| "addressed (CDeleteMany c q) = Some c"
| "addressed (CDeleteOne c q) = Some c"
| "addressed (CCountDocuments c q) = Some c"
| "addressed (CCommand db cmd (Some n)) = Some (Collection db n)"
| "addressed (CCommand db cmd None) = None"
| "addressed (CMongoClient cs) = None"
| "addressed (CGetDatabase cl n) = None"
| "addressed (CGetCollection db n) = Some (Collection db n)"
| "addressed (CClose cl) = None"

text \<open>
  What the round trip of a document needs from the engine, which the repository does not
  contain: after \<^verbatim>\<open>insert_one\<close> has returned the identifier \<open>i\<close> for the document
  \<open>d\<close>, a \<^verbatim>\<open>find\<close> for that identifier in the same collection yields one document, with
  the fields of \<open>d\<close> and the identifier.
\<close>

definition insert_find_law :: "'w engine \<Rightarrow> bool" where
  "insert_find_law E =
     (\<forall>c d sv i sv'. eng_insert_one E c (PDict d) sv = (Inr i, sv') \<longrightarrow>
        (\<exists>doc sv''. eng_find E c (PDict [(''_id'', i)]) sv' = (Inr [PDict doc], sv'') \<and>
                    map_of doc = (map_of d)(''_id'' \<mapsto> i)))"

section \<open>Lemmas on the methods\<close>

lemmas py_defs =
  py_return_def py_raise_def py_bind_def try_except_def logger_def print_def invoke_def

subsection \<open>No method call raises\<close>













lemma close_connection_returns: "fst (close_connection E s w) = Inr ()"
  by (simp add: close_connection_def py_defs split: prod.splits sum.splits)

lemma close_connection_fault:
  "eng_close E (client s) (server w) = (Inl e, sv) \<Longrightarrow>
   close_connection E s w =
     (Inr (), w\<lparr>server := sv, trace := trace w @ [CClose (client s)],
                logs := logs w @ [(ERROR, [Lit ''Error closing connection: '', FExn e])],
                stdout := stdout w @ [[Lit ''Error closing connection: '', FExn e]]\<rparr>)"
  by (simp add: close_connection_def py_defs)

subsection \<open>Arguments of the wrong shape\<close>

lemma create_invalid:
  "\<not> isinstance_dict d \<Longrightarrow>
   create E s d w =
     (Inr False,
      w\<lparr>logs := logs w @ [(WARNING, [Lit ''Invalid data provided for create operation''])],
        stdout := stdout w @ [[Lit ''Error: Data parameter must be a non-empty dictionary'']]\<rparr>)"
  by (simp add: create_def py_defs)

lemma read_invalid:
  "q \<noteq> PNone \<Longrightarrow> \<not> isinstance_dict q \<Longrightarrow>
   read E s q w =
     (Inr [],
      w\<lparr>logs := logs w @ [(WARNING, [Lit ''Invalid query provided for read operation''])],
        stdout := stdout w @ [[Lit ''Error: Query parameter must be a dictionary'']]\<rparr>)"
  by (simp add: read_def py_defs)

lemma update_invalid:
  "\<not> isinstance_dict q \<or> \<not> isinstance_dict u \<Longrightarrow>
   update E s q u m w =
     (Inr 0,
      w\<lparr>logs := logs w @ [(WARNING, [Lit ''Invalid parameters provided for update operation''])],
        stdout := stdout w @
          [[Lit ''Error: Both query and update_data parameters must be dictionaries'']]\<rparr>)"
  by (auto simp add: update_def py_defs)

lemma delete_invalid:
  "\<not> isinstance_dict q \<Longrightarrow>
   delete E s q m w =
     (Inr 0,
      w\<lparr>logs := logs w @ [(WARNING, [Lit ''Invalid query provided for delete operation''])],
        stdout := stdout w @ [[Lit ''Error: Query parameter must be a dictionary'']]\<rparr>)"
  by (simp add: delete_def py_defs)

lemma count_documents_invalid:
  "q \<noteq> PNone \<Longrightarrow> \<not> isinstance_dict q \<Longrightarrow>
   count_documents E s q w =
     (Inr 0, w\<lparr>stdout := stdout w @ [[Lit ''Error: Query parameter must be a dictionary'']]\<rparr>)"
  by (simp add: count_documents_def py_defs)

lemma count_documents_None: "count_documents E s PNone = count_documents E s (PDict [])"
  by (simp add: count_documents_def)

lemma count_documents_dict_trace:
  "trace (snd (count_documents E s (PDict q) w)) =
     trace w @ [CCountDocuments (collection s) (PDict q)]"
  by (auto simp add: count_documents_def py_defs Let_def split: prod.splits sum.splits)

subsection \<open>The constructor\<close>

lemma resolve_port_world: "snd (resolve_port int_str env pt w) = w"
  by (simp add: resolve_port_def env_port_def py_defs split: option.splits sum.splits)

lemma init_names_empty:
  assumes "\<not> truthy_opt (py_or (arg_database_name a) (env ''MONGO_DATABASE'')) \<or>
           \<not> truthy_opt (py_or (arg_collection_name a) (env ''MONGO_COLLECTION''))"
  shows "\<exists>e. MongoDBCRUD_init E int_str env a w = (Inl e, w)"
proof (cases "resolve_port int_str env (arg_port a) w")
  case (Pair r w')
  with resolve_port_world [of int_str env "arg_port a" w] have w': "w' = w" by simp
  show ?thesis
  proof (cases r)
    case (Inl e)
    with Pair w' show ?thesis by (simp add: MongoDBCRUD_init_def py_bind_def Let_def)
  next
    case (Inr pt)
    with Pair w' assms show ?thesis
      by (auto simp add: MongoDBCRUD_init_def py_bind_def py_raise_def Let_def truthy_opt_def
          split: option.splits)
  qed
qed

lemma init_names_empty_msg:
  assumes "\<not> truthy_opt (py_or (arg_database_name a) (env ''MONGO_DATABASE'')) \<or>
           \<not> truthy_opt (py_or (arg_collection_name a) (env ''MONGO_COLLECTION''))"
    and "fst (resolve_port int_str env (arg_port a) w) = Inr pt"
  shows "fst (MongoDBCRUD_init E int_str env a w) =
           Inl (ValueError (if truthy_opt (py_or (arg_database_name a) (env ''MONGO_DATABASE''))
                            then ''Collection name is required''
                            else ''Database name is required''))"
proof (cases "resolve_port int_str env (arg_port a) w")
  case (Pair r w')
  with assms(2) have r: "r = Inr pt" by simp
  with Pair assms(1) show ?thesis
    by (auto simp add: MongoDBCRUD_init_def py_bind_def py_raise_def Let_def truthy_opt_def
        split: option.splits)
qed

lemma init_valid:
  assumes "py_or (arg_database_name a) (env ''MONGO_DATABASE'') = Some dbn" and "dbn \<noteq> []"
    and "py_or (arg_collection_name a) (env ''MONGO_COLLECTION'') = Some cn" and "cn \<noteq> []"
    and "fst (resolve_port int_str env (arg_port a) w) = Inr pt"
  shows "MongoDBCRUD_init E int_str env a w =
           connect E (py_or (arg_username a) (env ''MONGO_USERNAME''))
             (py_or (arg_password a) (env ''MONGO_PASSWORD''))
             (resolve_host env (arg_host a)) pt dbn cn (arg_auth_source a) w"
proof (cases "resolve_port int_str env (arg_port a) w")
  case (Pair r w')
  with resolve_port_world [of int_str env "arg_port a" w] have w': "w' = w" by simp
  from Pair assms(5) have r: "r = Inr pt" by simp
  with Pair w' assms(1-4) show ?thesis
    by (simp add: MongoDBCRUD_init_def py_bind_def Let_def)
qed

lemma connect_MongoClient_fault:
  "eng_MongoClient E (connection_string u p h pt au) (server w) = (Inl e, sv) \<Longrightarrow>
   connect E u p h pt dbn cn au w =
     (Inl e, w\<lparr>server := sv,
               trace := trace w @ [CMongoClient (connection_string u p h pt au)],
               logs := logs w @ [(ERROR, [Lit ''Error connecting to MongoDB: '', FExn e])],
               stdout := stdout w @ [[Lit ''Error connecting to MongoDB: '', FExn e]]\<rparr>)"
  by (simp add: connect_def py_defs Let_def)

lemma connect_database_fault:
  "eng_MongoClient E (connection_string u p h pt au) (server w) = (Inr (), sv) \<Longrightarrow>
   eng_get_database E (Client (connection_string u p h pt au)) dbn sv = (Inl e, sv1) \<Longrightarrow>
   connect E u p h pt dbn cn au w =
     (Inl e, w\<lparr>server := sv1,
               trace := trace w @ [CMongoClient (connection_string u p h pt au),
                 CGetDatabase (Client (connection_string u p h pt au)) dbn],
               logs := logs w @ [(ERROR, [Lit ''Error connecting to MongoDB: '', FExn e])],
               stdout := stdout w @ [[Lit ''Error connecting to MongoDB: '', FExn e]]\<rparr>)"
  by (simp add: connect_def py_defs Let_def)

lemma connect_collection_fault:
  "eng_MongoClient E (connection_string u p h pt au) (server w) = (Inr (), sv) \<Longrightarrow>
   eng_get_database E (Client (connection_string u p h pt au)) dbn sv = (Inr (), sv1) \<Longrightarrow>
   eng_get_collection E (Database (Client (connection_string u p h pt au)) dbn) cn sv1 =
     (Inl e, sv2) \<Longrightarrow>
   connect E u p h pt dbn cn au w =
     (Inl e, w\<lparr>server := sv2,
               trace := trace w @ [CMongoClient (connection_string u p h pt au),
                 CGetDatabase (Client (connection_string u p h pt au)) dbn,
                 CGetCollection (Database (Client (connection_string u p h pt au)) dbn) cn],
               logs := logs w @ [(ERROR, [Lit ''Error connecting to MongoDB: '', FExn e])],
               stdout := stdout w @ [[Lit ''Error connecting to MongoDB: '', FExn e]]\<rparr>)"
  by (simp add: connect_def py_defs Let_def)

lemma connect_ping_fault:
  "eng_MongoClient E (connection_string u p h pt au) (server w) = (Inr (), sv) \<Longrightarrow>
   eng_get_database E (Client (connection_string u p h pt au)) dbn sv = (Inr (), sv1) \<Longrightarrow>
   eng_get_collection E (Database (Client (connection_string u p h pt au)) dbn) cn sv1 =
     (Inr (), sv2) \<Longrightarrow>
   eng_command E (Database (Client (connection_string u p h pt au)) dbn) ''ping'' None sv2 =
     (Inl e, sv3) \<Longrightarrow>
   connect E u p h pt dbn cn au w =
     (Inl e, w\<lparr>server := sv3,
               trace := trace w @ [CMongoClient (connection_string u p h pt au),
                 CGetDatabase (Client (connection_string u p h pt au)) dbn,
                 CGetCollection (Database (Client (connection_string u p h pt au)) dbn) cn,
                 CCommand (Database (Client (connection_string u p h pt au)) dbn) ''ping'' None],
               logs := logs w @ [(ERROR, [Lit ''Error connecting to MongoDB: '', FExn e])],
               stdout := stdout w @ [[Lit ''Error connecting to MongoDB: '', FExn e]]\<rparr>)"
  by (simp add: connect_def py_defs Let_def)

lemma connect_raises_logged:
  "connect E u p h pt dbn cn au w = (Inl e, w') \<Longrightarrow>
   logs w' = logs w @ [(ERROR, [Lit ''Error connecting to MongoDB: '', FExn e])] \<and>
   stdout w' = stdout w @ [[Lit ''Error connecting to MongoDB: '', FExn e]]"
  by (auto simp add: connect_def py_defs Let_def split: prod.splits sum.splits)

lemma connect_success:
  "connect E u p h pt dbn cn au w = (Inr s, w') \<Longrightarrow>
   database s = Database (client s) dbn \<and> collection s = Collection (database s) cn \<and>
   database_name s = dbn \<and> collection_name s = cn \<and>
   client s = Client (connection_string u p h pt au) \<and>
   trace w' = trace w @ [CMongoClient (connection_string u p h pt au),
                         CGetDatabase (client s) dbn, CGetCollection (database s) cn,
                         CCommand (database s) ''ping'' None]"
  by (auto simp add: connect_def py_defs Let_def split: prod.splits sum.splits)

lemma init_success:
  assumes "MongoDBCRUD_init E int_str env a w = (Inr s, w')"
  shows "database_name s \<noteq> [] \<and> collection_name s \<noteq> [] \<and>
         database s = Database (client s) (database_name s) \<and>
         collection s = Collection (database s) (collection_name s) \<and>
         (\<exists>cs. client s = Client cs \<and>
            trace w' = trace w @ [CMongoClient cs, CGetDatabase (client s) (database_name s),
              CGetCollection (database s) (collection_name s),
              CCommand (database s) ''ping'' None])"
proof (cases "resolve_port int_str env (arg_port a) w")
  case (Pair r w1)
  with resolve_port_world [of int_str env "arg_port a" w] have w1: "w1 = w" by simp
  show ?thesis
  proof (cases r)
    case (Inl e)
    with Pair assms show ?thesis by (simp add: MongoDBCRUD_init_def py_bind_def Let_def)
  next
    case (Inr pt)
    with Pair w1 assms show ?thesis
      by (auto simp add: MongoDBCRUD_init_def py_bind_def py_raise_def Let_def
          split: option.splits if_splits dest!: connect_success)
  qed
qed

subsection \<open>Create and read\<close>

lemma create_True_iff:
  "(fst (create E s (PDict d) w) = Inr True) =
   (\<exists>i sv. eng_insert_one E (collection s) (PDict d) (server w) = (Inr i, sv) \<and> truthy i)"
  by (auto simp add: create_def py_defs split: prod.splits sum.splits)

lemma create_True_world:
  "create E s (PDict d) w = (Inr True, w') \<Longrightarrow>
   \<exists>i sv. eng_insert_one E (collection s) (PDict d) (server w) = (Inr i, sv) \<and> truthy i \<and>
     w' = w\<lparr>server := sv, trace := trace w @ [CInsertOne (collection s) (PDict d)],
            logs := logs w @ [(INFO, [Lit ''Document inserted with ID: '', FVal i])]\<rparr>"
  by (auto simp add: create_def py_defs split: prod.splits sum.splits if_splits)

lemma read_dict_eq:
  "eng_find E (collection s) (PDict q) (server w) = (Inr r, sv) \<Longrightarrow>
   read E s (PDict q) w =
     (Inr r, w\<lparr>server := sv, trace := trace w @ [CFind (collection s) (PDict q)],
               logs := logs w @ [(INFO, [Lit ''Found '', FInt (int (length r)),
                                         Lit '' documents''])]\<rparr>)"
  by (simp add: read_def py_defs Let_def)

lemma roundtrip:
  assumes law: "insert_find_law E" and cr: "create E s (PDict d) w = (Inr True, w')"
  shows "\<exists>i sv. eng_insert_one E (collection s) (PDict d) (server w) = (Inr i, sv) \<and> truthy i \<and>
           last (logs w') = (INFO, [Lit ''Document inserted with ID: '', FVal i]) \<and>
           (\<exists>doc. fst (read E s (PDict [(''_id'', i)]) w') = Inr [PDict doc] \<and>
                  map_of doc = (map_of d)(''_id'' \<mapsto> i))"
proof -
  from create_True_world [OF cr] obtain i sv where
    ins: "eng_insert_one E (collection s) (PDict d) (server w) = (Inr i, sv)" and
    tr: "truthy i" and
    w': "w' = w\<lparr>server := sv, trace := trace w @ [CInsertOne (collection s) (PDict d)],
            logs := logs w @ [(INFO, [Lit ''Document inserted with ID: '', FVal i])]\<rparr>"
    by blast
  from law ins obtain doc sv'' where
    fnd: "eng_find E (collection s) (PDict [(''_id'', i)]) sv = (Inr [PDict doc], sv'')" and
    eq: "map_of doc = (map_of d)(''_id'' \<mapsto> i)"
    unfolding insert_find_law_def by blast
  from w' have "server w' = sv" by simp
  with fnd have "fst (read E s (PDict [(''_id'', i)]) w') = Inr [PDict doc]"
    by (simp add: read_dict_eq)
  with ins tr w' eq show ?thesis by auto
qed

lemma selected_append:
  "selected c q (m\<lparr>docs := docs m @ [(c, d)], next_id := n\<rparr>) =
     selected c q m @ (if matches q d then [d] else [])"
  by (simp add: selected_def)

lemma mem_engine_law: "insert_find_law mem_engine"
  unfolding insert_find_law_def
proof (intro allI impI)
  fix c d sv i sv'
  assume ins: "eng_insert_one mem_engine c (PDict d) sv = (Inr i, sv')"
  show "\<exists>doc sv''. eng_find mem_engine c (PDict [(''_id'', i)]) sv' = (Inr [PDict doc], sv'') \<and>
                    map_of doc = (map_of d)(''_id'' \<mapsto> i)"
  proof (cases "map_of d ''_id''")
    case None
    with ins have i: "i = PObjectId (next_id sv)"
      and fresh: "selected c [(''_id'', i)] sv = []"
      and sv': "sv' = sv\<lparr>docs := docs sv @ [(c, (''_id'', i) # d)], next_id := Suc (next_id sv)\<rparr>"
      by (auto simp add: mem_engine_def mem_insert_one_def Let_def split: if_splits)
    have "eng_find mem_engine c (PDict [(''_id'', i)]) sv' = (Inr [PDict ((''_id'', i) # d)], sv')"
      using fresh by (simp add: mem_engine_def mem_find_def sv' selected_append matches_def)
    moreover have "map_of ((''_id'', i) # d) = (map_of d)(''_id'' \<mapsto> i)" by simp
    ultimately show ?thesis by blast
  next
    case (Some v)
    with ins have i: "i = v"
      and fresh: "selected c [(''_id'', i)] sv = []"
      and sv': "sv' = sv\<lparr>docs := docs sv @ [(c, d)], next_id := Suc (next_id sv)\<rparr>"
      by (auto simp add: mem_engine_def mem_insert_one_def Let_def split: if_splits)
    have "eng_find mem_engine c (PDict [(''_id'', i)]) sv' = (Inr [PDict d], sv')"
      using fresh Some i by (simp add: mem_engine_def mem_find_def sv' selected_append matches_def)
    moreover have "map_of d = (map_of d)(''_id'' \<mapsto> i)" using Some i by (simp add: fun_upd_idem)
    ultimately show ?thesis by blast
  qed
qed

lemma create_falsy:
  "eng_insert_one E (collection s) (PDict d) (server w) = (Inr i, sv) \<Longrightarrow> \<not> truthy i \<Longrightarrow>
   create E s (PDict d) w =
     (Inr False, w\<lparr>server := sv, trace := trace w @ [CInsertOne (collection s) (PDict d)]\<rparr>)"
  by (simp add: create_def py_defs)

subsection \<open>Rescue candidates\<close>

lemma find_water:
  "find_rescue_candidates E s ''water'' =
     read E s (criteria_query [''Labrador Retriever Mix'', ''Chesapeake Bay Retriever'',
                               ''Newfoundland'', ''Portuguese Water Dog''] 26 156)"
  by (simp add: find_rescue_candidates_def rescue_criteria_def criteria_query_def)

lemma find_mountain:
  "find_rescue_candidates E s ''mountain'' =
     read E s (criteria_query [''German Shepherd'', ''Alaskan Malamute'', ''Old English Sheepdog'',
                               ''Siberian Husky'', ''Rottweiler''] 26 156)"
  by (simp add: find_rescue_candidates_def rescue_criteria_def criteria_query_def)

lemma find_disaster:
  "find_rescue_candidates E s ''disaster'' =
     read E s (criteria_query [''Doberman Pinscher'', ''German Shepherd'', ''Golden Retriever'',
                               ''Bloodhound'', ''Rottweiler''] 20 300)"
  by (simp add: find_rescue_candidates_def rescue_criteria_def criteria_query_def)

lemma read_criteria_result:
  "eng_find E (collection s) (criteria_query bs lo hi) (server w) = (Inr r, sv) \<Longrightarrow>
   read E s (criteria_query bs lo hi) w =
     (Inr r, w\<lparr>server := sv,
               trace := trace w @ [CFind (collection s) (criteria_query bs lo hi)],
               logs := logs w @ [(INFO, [Lit ''Found '', FInt (int (length r)),
                                         Lit '' documents''])]\<rparr>)"
  unfolding criteria_query_def by (rule read_dict_eq)

lemma find_rescue_candidates_unknown:
  "t \<noteq> ''water'' \<Longrightarrow> t \<noteq> ''mountain'' \<Longrightarrow> t \<noteq> ''disaster'' \<Longrightarrow>
   find_rescue_candidates E s t w =
     (Inr [], w\<lparr>stdout := stdout w @ [[Lit ''Unknown rescue type: '', FStr t]]\<rparr>)"
  by (simp add: find_rescue_candidates_def rescue_criteria_def py_defs)

subsection \<open>Switching\<close>

lemma switch_collection_ok:
  "eng_get_collection E (database s) X (server w) = (Inr (), sv) \<Longrightarrow>
   switch_collection E s X w =
     (Inr (), s\<lparr>collection_name := X, collection := Collection (database s) X\<rparr>,
      w\<lparr>server := sv, trace := trace w @ [CGetCollection (database s) X],
        stdout := stdout w @ [[Lit ''Switched to collection: '', FStr X]]\<rparr>)"
  by (simp add: switch_collection_def set_collection_def py_defs Let_def)

lemma switch_collection_raises:
  "eng_get_collection E (database s) X (server w) = (Inl e, sv) \<Longrightarrow>
   switch_collection E s X w =
     (Inl e, s\<lparr>collection_name := X\<rparr>,
      w\<lparr>server := sv, trace := trace w @ [CGetCollection (database s) X]\<rparr>)"
  by (simp add: switch_collection_def set_collection_def py_defs Let_def)

lemma switch_database_None_ok:
  "eng_get_database E (client s) D (server w) = (Inr (), sv) \<Longrightarrow>
   eng_get_collection E (Database (client s) D) (collection_name s) sv = (Inr (), sva) \<Longrightarrow>
   switch_database E s D None w =
     (Inr (), s\<lparr>database_name := D, database := Database (client s) D,
                 collection := Collection (Database (client s) D) (collection_name s)\<rparr>,
      w\<lparr>server := sva,
        trace := trace w @ [CGetDatabase (client s) D,
                            CGetCollection (Database (client s) D) (collection_name s)],
        stdout := stdout w @ [[Lit ''Switched to database: '', FStr D, Lit ''.'',
                                FStr (collection_name s)]]\<rparr>)"
  by (simp add: switch_database_def set_database_def set_collection_def py_defs Let_def)

lemma exec_not_switch:
  "\<not> is_switch x \<Longrightarrow>
   \<exists>r cs w'. exec E x s w = (Inr r, s, w') \<and> trace w' = trace w @ cs \<and>
     (\<forall>c\<in>set cs. c = CClose (client s) \<or> addressed c = Some (collection s) \<or>
         addressed c = Some (Collection (database s) (collection_name s)))"
proof (cases x)
  case (OpCreate d)
  then show ?thesis
    by (auto simp add: create_def py_defs split: prod.splits sum.splits)
next
  case (OpRead q)
  then show ?thesis
    by (auto simp add: read_def py_defs Let_def split: prod.splits sum.splits)
next
  case (OpUpdate q u m)
  then show ?thesis
    by (auto simp add: update_def py_defs split: prod.splits sum.splits)
next
  case (OpDelete q m)
  then show ?thesis
    by (auto simp add: delete_def py_defs split: prod.splits sum.splits)
next
  case (OpCountDocuments q)
  then show ?thesis
    by (auto simp add: count_documents_def py_defs Let_def split: prod.splits sum.splits)
next
  case OpCloseConnection
  then show ?thesis
    by (auto simp add: close_connection_def py_defs split: prod.splits sum.splits)
next
  case OpGetCollectionInfo
  then show ?thesis
    by (auto simp add: get_collection_info_def py_defs split: prod.splits sum.splits)
next
  case (OpFindRescueCandidates t)
  then show ?thesis
    by (auto simp add: find_rescue_candidates_def read_def py_defs Let_def
        split: prod.splits sum.splits option.splits)
qed simp_all

lemma run_not_switch:
  "list_all (\<lambda>x. \<not> is_switch x) xs \<Longrightarrow>
   \<exists>cs w'. run E xs s w = (Inr (), s, w') \<and> trace w' = trace w @ cs \<and>
     (\<forall>c\<in>set cs. c = CClose (client s) \<or> addressed c = Some (collection s) \<or>
         addressed c = Some (Collection (database s) (collection_name s)))"
proof (induction xs arbitrary: w)
  case Nil
  then show ?case by simp
next
  case (Cons x xs)
  then have nx: "\<not> is_switch x" and nxs: "list_all (\<lambda>x. \<not> is_switch x) xs" by simp_all
  from exec_not_switch [OF nx, of E s w] obtain r cs1 w1 where
    ex: "exec E x s w = (Inr r, s, w1)" and t1: "trace w1 = trace w @ cs1" and
    a1: "\<forall>c\<in>set cs1. c = CClose (client s) \<or> addressed c = Some (collection s) \<or>
         addressed c = Some (Collection (database s) (collection_name s))"
    by blast
  from Cons.IH [OF nxs, of w1] obtain cs2 w2 where
    r2: "run E xs s w1 = (Inr (), s, w2)" and t2: "trace w2 = trace w1 @ cs2" and
    a2: "\<forall>c\<in>set cs2. c = CClose (client s) \<or> addressed c = Some (collection s) \<or>
         addressed c = Some (Collection (database s) (collection_name s))"
    by blast
  have "run E (x # xs) s w = (Inr (), s, w2)" using ex r2 by simp
  with t2 t1 a1 a2 show ?case
    by (intro exI [of _ "cs1 @ cs2"] exI [of _ w2]) auto
qed

lemma set_collection_config:
  "set_collection E s n w = (r, s', w') \<Longrightarrow>
   username s' = username s \<and> password s' = password s \<and> host s' = host s \<and>
   port s' = port s \<and> auth_source s' = auth_source s \<and> client s' = client s \<and>
   database_name s' = database_name s \<and> collection_name s' = collection_name s"
  by (auto simp add: set_collection_def invoke_def split: prod.splits sum.splits)

lemma set_database_config:
  "set_database E s n w = (r, s', w') \<Longrightarrow>
   username s' = username s \<and> password s' = password s \<and> host s' = host s \<and>
   port s' = port s \<and> auth_source s' = auth_source s \<and> client s' = client s \<and>
   database_name s' = database_name s \<and> collection_name s' = collection_name s"
  by (auto simp add: set_database_def invoke_def split: prod.splits sum.splits)

lemma switch_collection_config:
  assumes "switch_collection E s n w = (r, s', w')"
  shows "username s' = username s \<and> password s' = password s \<and> host s' = host s \<and>
   port s' = port s \<and> auth_source s' = auth_source s \<and> client s' = client s"
proof -
  obtain q s2 w1 where sc: "set_collection E (s\<lparr>collection_name := n\<rparr>) n w = (q, s2, w1)"
    by (cases "set_collection E (s\<lparr>collection_name := n\<rparr>) n w") auto
  from set_collection_config [OF sc] have k: "username s2 = username s \<and> password s2 = password s \<and>
    host s2 = host s \<and> port s2 = port s \<and> auth_source s2 = auth_source s \<and> client s2 = client s"
    by simp
  from assms sc have "s' = s2"
    by (auto simp add: switch_collection_def Let_def print_def split: sum.splits)
  with k show ?thesis by simp
qed

lemma switch_database_config:
  assumes "switch_database E s d n w = (r, s', w')"
  shows "username s' = username s \<and> password s' = password s \<and> host s' = host s \<and>
   port s' = port s \<and> auth_source s' = auth_source s \<and> client s' = client s"
proof -
  obtain q s2 w1 where sd: "set_database E (s\<lparr>database_name := d\<rparr>) d w = (q, s2, w1)"
    by (cases "set_database E (s\<lparr>database_name := d\<rparr>) d w") auto
  from set_database_config [OF sd] have k: "username s2 = username s \<and> password s2 = password s \<and>
    host s2 = host s \<and> port s2 = port s \<and> auth_source s2 = auth_source s \<and> client s2 = client s"
    by simp
  show ?thesis
  proof (cases q)
    case (Inl e)
    with assms sd have "s' = s2" by (simp add: switch_database_def Let_def)
    with k show ?thesis by simp
  next
    case (Inr v)
    define t where "t = (case n of
                   Some m \<Rightarrow>
                     if m \<noteq> []
                     then set_collection E (s2\<lparr>collection_name := m\<rparr>) m w1
                     else set_collection E s2 (collection_name s2) w1
                 | None \<Rightarrow> set_collection E s2 (collection_name s2) w1)"
    obtain q3 s3 w2 where t: "t = (q3, s3, w2)" by (cases t) auto
    have k3: "username s3 = username s2 \<and> password s3 = password s2 \<and>
      host s3 = host s2 \<and> port s3 = port s2 \<and> auth_source s3 = auth_source s2 \<and>
      client s3 = client s2"
      using t unfolding t_def
      by (auto split: option.splits if_splits dest!: set_collection_config)
    from assms sd Inr t have "s' = s3"
      unfolding t_def
      by (auto simp add: switch_database_def Let_def print_def split: sum.splits)
    with k k3 show ?thesis by simp
  qed
qed

lemma exec_config:
  assumes "exec E x s w = (r, s', w')"
  shows "username s' = username s \<and> password s' = password s \<and> host s' = host s \<and>
   port s' = port s \<and> auth_source s' = auth_source s \<and> client s' = client s"
proof (cases x)
  case (OpSwitchCollection n)
  with assms show ?thesis
    by (auto split: prod.splits dest!: switch_collection_config)
next
  case (OpSwitchDatabase d n)
  with assms show ?thesis
    by (auto split: prod.splits dest!: switch_database_config)
qed (use assms in \<open>auto split: prod.splits\<close>)

lemma run_config:
  "run E xs s w = (r, s', w') \<Longrightarrow>
   username s' = username s \<and> password s' = password s \<and> host s' = host s \<and>
   port s' = port s \<and> auth_source s' = auth_source s \<and> client s' = client s"
proof (induction xs arbitrary: s w)
  case Nil
  then show ?case by simp
next
  case (Cons x xs)
  obtain q s1 w1 where ex: "exec E x s w = (q, s1, w1)" by (cases "exec E x s w") auto
  note c1 = exec_config [OF ex]
  show ?case
  proof (cases q)
    case (Inl e)
    with ex Cons.prems have "s' = s1" by simp
    with c1 show ?thesis by simp
  next
    case (Inr v)
    with ex Cons.prems have "run E xs s1 w1 = (r, s', w')" by simp
    from Cons.IH [OF this] c1 show ?thesis by simp
  qed
qed

section \<open>Properties\<close>

subsection \<open>Engine faults are absorbed\<close>



subsection \<open>Arguments of the wrong shape make no driver call\<close>

text \<open>
  C2. A document that is not a dict makes \<^verbatim>\<open>create\<close> return \<open>False\<close>; a query that
  is neither \<^verbatim>\<open>None\<close> nor a dict makes \<^verbatim>\<open>read\<close> return the empty list; a query or
  a patch that is not a dict (\<^verbatim>\<open>None\<close> included) makes \<^verbatim>\<open>update\<close> return \<open>0\<close>; a
  query that is not a dict makes \<^verbatim>\<open>delete\<close> return \<open>0\<close>. In each case the world
  afterwards differs from the world before only by a warning of the logger and a printed
  line: the server and the trace of driver calls are as before, so no driver call was made.
\<close>

theorem invalid_arguments_rejected:
  "(\<not> isinstance_dict d \<longrightarrow>
      create E s d w =
        (Inr False,
         w\<lparr>logs := logs w @ [(WARNING, [Lit ''Invalid data provided for create operation''])],
           stdout := stdout w @ [[Lit ''Error: Data parameter must be a non-empty dictionary'']]\<rparr>)) \<and>
   (q \<noteq> PNone \<and> \<not> isinstance_dict q \<longrightarrow>
      read E s q w =
        (Inr [],
         w\<lparr>logs := logs w @ [(WARNING, [Lit ''Invalid query provided for read operation''])],
           stdout := stdout w @ [[Lit ''Error: Query parameter must be a dictionary'']]\<rparr>)) \<and>
   (\<not> isinstance_dict q \<or> \<not> isinstance_dict u \<longrightarrow>
      update E s q u m w =
        (Inr 0,
         w\<lparr>logs := logs w @ [(WARNING, [Lit ''Invalid parameters provided for update operation''])],
           stdout := stdout w @
             [[Lit ''Error: Both query and update_data parameters must be dictionaries'']]\<rparr>)) \<and>
   (\<not> isinstance_dict q \<longrightarrow>
      delete E s q m w =
        (Inr 0,
         w\<lparr>logs := logs w @ [(WARNING, [Lit ''Invalid query provided for delete operation''])],
           stdout := stdout w @ [[Lit ''Error: Query parameter must be a dictionary'']]\<rparr>))"
  using create_invalid [of d E s w] read_invalid [of q E s w] update_invalid [of q u E s m w]
    delete_invalid [of q E s m w]
  by blast

text \<open>A string, a number and \<^verbatim>\<open>None\<close> as arguments: the trace stays empty.\<close>

theorem invalid_arguments_rejected_witness:
  "\<not> isinstance_dict (PStr ''Rex'') \<and> PInt 5 \<noteq> PNone \<and> \<not> isinstance_dict (PInt 5) \<and>
   \<not> isinstance_dict PNone \<and>
   fst (create failing_engine store0 (PStr ''Rex'') world0) = Inr False \<and>
   trace (snd (create failing_engine store0 (PStr ''Rex'') world0)) = [] \<and>
   fst (read failing_engine store0 (PInt 5) world0) = Inr [] \<and>
   trace (snd (read failing_engine store0 (PInt 5) world0)) = [] \<and>
   fst (update failing_engine store0 (PInt 5) PNone True world0) = Inr 0 \<and>
   trace (snd (update failing_engine store0 (PInt 5) PNone True world0)) = [] \<and>
   fst (delete failing_engine store0 (PInt 5) False world0) = Inr 0 \<and>
   trace (snd (delete failing_engine store0 (PInt 5) False world0)) = []"
  using invalid_arguments_rejected [of "PStr ''Rex''" failing_engine store0 world0 "PInt 5" PNone True]
    invalid_arguments_rejected [of "PStr ''Rex''" failing_engine store0 world0 "PInt 5" PNone False]
  by (simp add: world0_def)

subsection \<open>Construction fails fast\<close>

text \<open>
  C3. When the database name or the collection name is \<^verbatim>\<open>None\<close> or empty after the
  defaults of the environment, \<^verbatim>\<open>__init__\<close> raises and leaves the world as it was: no
  driver call, so no connection attempt. The exception is the \<^verbatim>\<open>ValueError\<close> that names
  the missing parameter, whenever the port is resolved without error (the only statement
  that can raise before the check is \<^verbatim>\<open>int()\<close> on \<^verbatim>\<open>MONGO_PORT\<close>). With both names
  present the constructor is \<^verbatim>\<open>_connect\<close>. Whenever \<^verbatim>\<open>_connect\<close> raises, it has
  recorded the exception with the logger at level ERROR, printed it, and raises the same
  exception, so that no object is returned; this is what happens when \<^verbatim>\<open>MongoClient\<close>
  raises, when the driver refuses the name of the database or of the collection, and when
  the \<^verbatim>\<open>ping\<close> command raises, and in each case the calls after the failing one are
  not made. An object that is returned has passed all four calls, and its database and
  collection handles are those of its names.
\<close>

theorem construction_fails_fast:
  "(\<not> truthy_opt (py_or (arg_database_name a) (env ''MONGO_DATABASE'')) \<or>
    \<not> truthy_opt (py_or (arg_collection_name a) (env ''MONGO_COLLECTION'')) \<longrightarrow>
      (\<exists>e. MongoDBCRUD_init E int_str env a w = (Inl e, w)) \<and>
      (fst (resolve_port int_str env (arg_port a) w) = Inr pt \<longrightarrow>
         fst (MongoDBCRUD_init E int_str env a w) =
           Inl (ValueError (if truthy_opt (py_or (arg_database_name a) (env ''MONGO_DATABASE''))
                            then ''Collection name is required''
                            else ''Database name is required'')))) \<and>
   (py_or (arg_database_name a) (env ''MONGO_DATABASE'') = Some dbn \<and> dbn \<noteq> [] \<and>
    py_or (arg_collection_name a) (env ''MONGO_COLLECTION'') = Some cn \<and> cn \<noteq> [] \<and>
    fst (resolve_port int_str env (arg_port a) w) = Inr pt \<longrightarrow>
      MongoDBCRUD_init E int_str env a w =
        connect E (py_or (arg_username a) (env ''MONGO_USERNAME''))
          (py_or (arg_password a) (env ''MONGO_PASSWORD''))
          (resolve_host env (arg_host a)) pt dbn cn (arg_auth_source a) w) \<and>
   (connect E u p h pt dbn cn au w = (Inl e, w') \<longrightarrow>
      logs w' = logs w @ [(ERROR, [Lit ''Error connecting to MongoDB: '', FExn e])] \<and>
      stdout w' = stdout w @ [[Lit ''Error connecting to MongoDB: '', FExn e]]) \<and>
   (eng_MongoClient E (connection_string u p h pt au) (server w) = (Inl e, sv) \<longrightarrow>
      connect E u p h pt dbn cn au w =
        (Inl e, w\<lparr>server := sv,
                  trace := trace w @ [CMongoClient (connection_string u p h pt au)],
                  logs := logs w @ [(ERROR, [Lit ''Error connecting to MongoDB: '', FExn e])],
                  stdout := stdout w @ [[Lit ''Error connecting to MongoDB: '', FExn e]]\<rparr>)) \<and>
   (eng_MongoClient E (connection_string u p h pt au) (server w) = (Inr (), sv) \<and>
    eng_get_database E (Client (connection_string u p h pt au)) dbn sv = (Inl e, sva) \<longrightarrow>
      connect E u p h pt dbn cn au w =
        (Inl e, w\<lparr>server := sva,
                  trace := trace w @ [CMongoClient (connection_string u p h pt au),
                    CGetDatabase (Client (connection_string u p h pt au)) dbn],
                  logs := logs w @ [(ERROR, [Lit ''Error connecting to MongoDB: '', FExn e])],
                  stdout := stdout w @ [[Lit ''Error connecting to MongoDB: '', FExn e]]\<rparr>)) \<and>
   (eng_MongoClient E (connection_string u p h pt au) (server w) = (Inr (), sv) \<and>
    eng_get_database E (Client (connection_string u p h pt au)) dbn sv = (Inr (), sva) \<and>
    eng_get_collection E (Database (Client (connection_string u p h pt au)) dbn) cn sva =
      (Inl e, svb) \<longrightarrow>
      connect E u p h pt dbn cn au w =
        (Inl e, w\<lparr>server := svb,
                  trace := trace w @ [CMongoClient (connection_string u p h pt au),
                    CGetDatabase (Client (connection_string u p h pt au)) dbn,
                    CGetCollection (Database (Client (connection_string u p h pt au)) dbn) cn],
                  logs := logs w @ [(ERROR, [Lit ''Error connecting to MongoDB: '', FExn e])],
                  stdout := stdout w @ [[Lit ''Error connecting to MongoDB: '', FExn e]]\<rparr>)) \<and>
   (eng_MongoClient E (connection_string u p h pt au) (server w) = (Inr (), sv) \<and>
    eng_get_database E (Client (connection_string u p h pt au)) dbn sv = (Inr (), sva) \<and>
    eng_get_collection E (Database (Client (connection_string u p h pt au)) dbn) cn sva =
      (Inr (), svb) \<and>
    eng_command E (Database (Client (connection_string u p h pt au)) dbn) ''ping'' None svb =
      (Inl e, svc) \<longrightarrow>
      connect E u p h pt dbn cn au w =
        (Inl e, w\<lparr>server := svc,
                  trace := trace w @ [CMongoClient (connection_string u p h pt au),
                    CGetDatabase (Client (connection_string u p h pt au)) dbn,
                    CGetCollection (Database (Client (connection_string u p h pt au)) dbn) cn,
                    CCommand (Database (Client (connection_string u p h pt au)) dbn) ''ping'' None],
                  logs := logs w @ [(ERROR, [Lit ''Error connecting to MongoDB: '', FExn e])],
                  stdout := stdout w @ [[Lit ''Error connecting to MongoDB: '', FExn e]]\<rparr>)) \<and>
   (MongoDBCRUD_init E int_str env a w = (Inr s, w') \<longrightarrow>
      database_name s \<noteq> [] \<and> collection_name s \<noteq> [] \<and>
      database s = Database (client s) (database_name s) \<and>
      collection s = Collection (database s) (collection_name s) \<and>
      (\<exists>cs. client s = Client cs \<and>
         trace w' = trace w @ [CMongoClient cs, CGetDatabase (client s) (database_name s),
           CGetCollection (database s) (collection_name s),
           CCommand (database s) ''ping'' None]))"
proof (intro conjI impI)
  assume h: "\<not> truthy_opt (py_or (arg_database_name a) (env ''MONGO_DATABASE'')) \<or>
    \<not> truthy_opt (py_or (arg_collection_name a) (env ''MONGO_COLLECTION''))"
  then show "\<exists>e. MongoDBCRUD_init E int_str env a w = (Inl e, w)"
    by (rule init_names_empty)
  assume "fst (resolve_port int_str env (arg_port a) w) = Inr pt"
  with h show "fst (MongoDBCRUD_init E int_str env a w) =
           Inl (ValueError (if truthy_opt (py_or (arg_database_name a) (env ''MONGO_DATABASE''))
                            then ''Collection name is required''
                            else ''Database name is required''))"
    by (rule init_names_empty_msg)
next
  assume "py_or (arg_database_name a) (env ''MONGO_DATABASE'') = Some dbn \<and> dbn \<noteq> [] \<and>
    py_or (arg_collection_name a) (env ''MONGO_COLLECTION'') = Some cn \<and> cn \<noteq> [] \<and>
    fst (resolve_port int_str env (arg_port a) w) = Inr pt"
  then show "MongoDBCRUD_init E int_str env a w =
        connect E (py_or (arg_username a) (env ''MONGO_USERNAME''))
          (py_or (arg_password a) (env ''MONGO_PASSWORD''))
          (resolve_host env (arg_host a)) pt dbn cn (arg_auth_source a) w"
    by (simp add: init_valid)
next
  assume c: "connect E u p h pt dbn cn au w = (Inl e, w')"
  from connect_raises_logged [OF c]
  show "logs w' = logs w @ [(ERROR, [Lit ''Error connecting to MongoDB: '', FExn e])]"
    and "stdout w' = stdout w @ [[Lit ''Error connecting to MongoDB: '', FExn e]]"
    by simp_all
next
  assume "eng_MongoClient E (connection_string u p h pt au) (server w) = (Inl e, sv)"
  then show "connect E u p h pt dbn cn au w =
        (Inl e, w\<lparr>server := sv,
                  trace := trace w @ [CMongoClient (connection_string u p h pt au)],
                  logs := logs w @ [(ERROR, [Lit ''Error connecting to MongoDB: '', FExn e])],
                  stdout := stdout w @ [[Lit ''Error connecting to MongoDB: '', FExn e]]\<rparr>)"
    by (rule connect_MongoClient_fault)
next
  assume "eng_MongoClient E (connection_string u p h pt au) (server w) = (Inr (), sv) \<and>
    eng_get_database E (Client (connection_string u p h pt au)) dbn sv = (Inl e, sva)"
  then show "connect E u p h pt dbn cn au w =
        (Inl e, w\<lparr>server := sva,
                  trace := trace w @ [CMongoClient (connection_string u p h pt au),
                    CGetDatabase (Client (connection_string u p h pt au)) dbn],
                  logs := logs w @ [(ERROR, [Lit ''Error connecting to MongoDB: '', FExn e])],
                  stdout := stdout w @ [[Lit ''Error connecting to MongoDB: '', FExn e]]\<rparr>)"
    by (simp add: connect_database_fault)
next
  assume "eng_MongoClient E (connection_string u p h pt au) (server w) = (Inr (), sv) \<and>
    eng_get_database E (Client (connection_string u p h pt au)) dbn sv = (Inr (), sva) \<and>
    eng_get_collection E (Database (Client (connection_string u p h pt au)) dbn) cn sva =
      (Inl e, svb)"
  then show "connect E u p h pt dbn cn au w =
        (Inl e, w\<lparr>server := svb,
                  trace := trace w @ [CMongoClient (connection_string u p h pt au),
                    CGetDatabase (Client (connection_string u p h pt au)) dbn,
                    CGetCollection (Database (Client (connection_string u p h pt au)) dbn) cn],
                  logs := logs w @ [(ERROR, [Lit ''Error connecting to MongoDB: '', FExn e])],
                  stdout := stdout w @ [[Lit ''Error connecting to MongoDB: '', FExn e]]\<rparr>)"
    by (simp add: connect_collection_fault)
next
  assume "eng_MongoClient E (connection_string u p h pt au) (server w) = (Inr (), sv) \<and>
    eng_get_database E (Client (connection_string u p h pt au)) dbn sv = (Inr (), sva) \<and>
    eng_get_collection E (Database (Client (connection_string u p h pt au)) dbn) cn sva =
      (Inr (), svb) \<and>
    eng_command E (Database (Client (connection_string u p h pt au)) dbn) ''ping'' None svb =
      (Inl e, svc)"
  then show "connect E u p h pt dbn cn au w =
        (Inl e, w\<lparr>server := svc,
                  trace := trace w @ [CMongoClient (connection_string u p h pt au),
                    CGetDatabase (Client (connection_string u p h pt au)) dbn,
                    CGetCollection (Database (Client (connection_string u p h pt au)) dbn) cn,
                    CCommand (Database (Client (connection_string u p h pt au)) dbn) ''ping'' None],
                  logs := logs w @ [(ERROR, [Lit ''Error connecting to MongoDB: '', FExn e])],
                  stdout := stdout w @ [[Lit ''Error connecting to MongoDB: '', FExn e]]\<rparr>)"
    by (simp add: connect_ping_fault)
next
  assume i: "MongoDBCRUD_init E int_str env a w = (Inr s, w')"
  from init_success [OF i]
  show "database_name s \<noteq> []" and "collection_name s \<noteq> []"
    and "database s = Database (client s) (database_name s)"
    and "collection s = Collection (database s) (collection_name s)"
    and "\<exists>cs. client s = Client cs \<and>
         trace w' = trace w @ [CMongoClient cs, CGetDatabase (client s) (database_name s),
           CGetCollection (database s) (collection_name s),
           CCommand (database s) ''ping'' None]"
    by blast+
qed

text \<open>
  No names at all; a database name only; the engine that is down; a database name and a
  collection name that the driver refuses; the engine whose ping fails; and the in-memory
  engine with the default names, on which the constructor returns \<open>store0\<close>.
\<close>

theorem construction_fails_fast_witness:
  "MongoDBCRUD_init failing_engine no_int Map.empty no_args world0 =
     (Inl (ValueError ''Database name is required''), world0) \<and>
   MongoDBCRUD_init failing_engine no_int Map.empty
       (no_args\<lparr>arg_database_name := Some ''AAC''\<rparr>) world0 =
     (Inl (ValueError ''Collection name is required''), world0) \<and>
   MongoDBCRUD_init failing_engine no_int Map.empty AnimalShelter_defaults world0 =
     (Inl down,
      world0\<lparr>server := (), trace := trace world0 @ [CMongoClient uri0],
             logs := logs world0 @ [(ERROR, [Lit ''Error connecting to MongoDB: '', FExn down])],
             stdout := stdout world0 @ [[Lit ''Error connecting to MongoDB: '', FExn down]]\<rparr>) \<and>
   MongoDBCRUD_init mem_engine no_int Map.empty bad_db_args mem0 =
     (Inl (invalid_name ''bad name''),
      mem0\<lparr>server := server mem0,
           trace := trace mem0 @ [CMongoClient uri0, CGetDatabase (Client uri0) ''bad name''],
           logs := logs mem0 @ [(ERROR, [Lit ''Error connecting to MongoDB: '',
                                        FExn (invalid_name ''bad name'')])],
           stdout := stdout mem0 @ [[Lit ''Error connecting to MongoDB: '',
                                     FExn (invalid_name ''bad name'')]]\<rparr>) \<and>
   MongoDBCRUD_init mem_engine no_int Map.empty bad_coll_args mem0 =
     (Inl (invalid_name ''a$b''),
      mem0\<lparr>server := server mem0,
           trace := trace mem0 @ [CMongoClient uri0, CGetDatabase (Client uri0) ''AAC'',
             CGetCollection (Database (Client uri0) ''AAC'') ''a$b''],
           logs := logs mem0 @ [(ERROR, [Lit ''Error connecting to MongoDB: '',
                                        FExn (invalid_name ''a$b'')])],
           stdout := stdout mem0 @ [[Lit ''Error connecting to MongoDB: '',
                                     FExn (invalid_name ''a$b'')]]\<rparr>) \<and>
   MongoDBCRUD_init ping_fails_engine no_int Map.empty AnimalShelter_defaults mem0 =
     (Inl down,
      mem0\<lparr>server := server mem0,
           trace := trace mem0 @
             [CMongoClient uri0, CGetDatabase (Client uri0) ''AAC'',
              CGetCollection (Database (Client uri0) ''AAC'') ''animals'',
              CCommand (Database (Client uri0) ''AAC'') ''ping'' None],
           logs := logs mem0 @ [(ERROR, [Lit ''Error connecting to MongoDB: '', FExn down])],
           stdout := stdout mem0 @ [[Lit ''Error connecting to MongoDB: '', FExn down]]\<rparr>) \<and>
   fst (MongoDBCRUD_init mem_engine no_int Map.empty AnimalShelter_defaults mem0) = Inr store0 \<and>
   database store0 = Database (client store0) (database_name store0) \<and>
   collection store0 = Collection (database store0) (collection_name store0)"
proof -
  have port: "fst (resolve_port no_int Map.empty None w) = Inr 27017" for w :: "'a world"
    by (simp add: resolve_port_def env_port_def py_return_def)
  have cs: "connection_string (Some ''aacuser'') (Some ''SNHU1234'') ''localhost'' 27017 ''admin''
              = uri0"
    by (simp add: connection_string_def uri0_def)
  have a: "MongoDBCRUD_init failing_engine no_int Map.empty no_args world0 =
     (Inl (ValueError ''Database name is required''), world0)"
    using construction_fails_fast [where a = no_args and env = Map.empty and E = failing_engine
        and int_str = no_int and w = world0 and pt = 27017, THEN conjunct1] port [of world0]
    by (auto simp add: no_args_def py_or_def truthy_opt_def)
  have b: "MongoDBCRUD_init failing_engine no_int Map.empty
       (no_args\<lparr>arg_database_name := Some ''AAC''\<rparr>) world0 =
     (Inl (ValueError ''Collection name is required''), world0)"
    using construction_fails_fast [where a = "no_args\<lparr>arg_database_name := Some ''AAC''\<rparr>"
        and env = Map.empty and E = failing_engine and int_str = no_int and w = world0
        and pt = 27017, THEN conjunct1] port [of world0]
    by (auto simp add: no_args_def py_or_def truthy_opt_def)
  have c: "MongoDBCRUD_init E no_int Map.empty
             (AnimalShelter_defaults\<lparr>arg_database_name := Some dbn, arg_collection_name := Some cn\<rparr>) w =
             connect E (Some ''aacuser'') (Some ''SNHU1234'') ''localhost'' 27017 dbn cn ''admin'' w"
    if "dbn \<noteq> []" and "cn \<noteq> []" for E :: "'a engine" and w dbn cn
    using construction_fails_fast [where
        a = "AnimalShelter_defaults\<lparr>arg_database_name := Some dbn, arg_collection_name := Some cn\<rparr>"
        and env = Map.empty and E = E and int_str = no_int
        and w = w and pt = 27017 and dbn = dbn and cn = cn, THEN conjunct2, THEN conjunct1] port [of w] that
    by (simp add: AnimalShelter_defaults_def py_or_def truthy_opt_def resolve_host_def)
  have c0: "MongoDBCRUD_init E no_int Map.empty AnimalShelter_defaults w =
             connect E (Some ''aacuser'') (Some ''SNHU1234'') ''localhost'' 27017 ''AAC''
               ''animals'' ''admin'' w" for E :: "'a engine" and w
    using c [of "''AAC''" "''animals''" E w] by (simp add: AnimalShelter_defaults_def)
  have c1: "MongoDBCRUD_init E no_int Map.empty bad_db_args w =
             connect E (Some ''aacuser'') (Some ''SNHU1234'') ''localhost'' 27017 ''bad name''
               ''animals'' ''admin'' w" for E :: "'a engine" and w
    using c [of "''bad name''" "''animals''" E w]
    by (simp add: AnimalShelter_defaults_def bad_db_args_def)
  have c2: "MongoDBCRUD_init E no_int Map.empty bad_coll_args w =
             connect E (Some ''aacuser'') (Some ''SNHU1234'') ''localhost'' 27017 ''AAC''
               ''a$b'' ''admin'' w" for E :: "'a engine" and w
    using c [of "''AAC''" "''a$b''" E w]
    by (simp add: AnimalShelter_defaults_def bad_coll_args_def)
  have d: "connect failing_engine (Some ''aacuser'') (Some ''SNHU1234'') ''localhost'' 27017 ''AAC''
             ''animals'' ''admin'' world0 =
     (Inl down,
      world0\<lparr>server := (), trace := trace world0 @ [CMongoClient uri0],
             logs := logs world0 @ [(ERROR, [Lit ''Error connecting to MongoDB: '', FExn down])],
             stdout := stdout world0 @ [[Lit ''Error connecting to MongoDB: '', FExn down]]\<rparr>)"
    using construction_fails_fast [where E = failing_engine and u = "Some ''aacuser''"
        and p = "Some ''SNHU1234''" and h = "''localhost''" and pt = 27017 and au = "''admin''"
        and w = world0 and e = down and sv = "()" and dbn = "''AAC''" and cn = "''animals''", THEN conjunct2, THEN conjunct2, THEN conjunct2, THEN conjunct1]
    by (simp add: cs failing_engine_def)
  have e1: "connect mem_engine (Some ''aacuser'') (Some ''SNHU1234'') ''localhost'' 27017
             ''bad name'' ''animals'' ''admin'' mem0 =
     (Inl (invalid_name ''bad name''),
      mem0\<lparr>server := server mem0,
           trace := trace mem0 @ [CMongoClient uri0, CGetDatabase (Client uri0) ''bad name''],
           logs := logs mem0 @ [(ERROR, [Lit ''Error connecting to MongoDB: '',
                                        FExn (invalid_name ''bad name'')])],
           stdout := stdout mem0 @ [[Lit ''Error connecting to MongoDB: '',
                                     FExn (invalid_name ''bad name'')]]\<rparr>)"
    using construction_fails_fast [where E = mem_engine and u = "Some ''aacuser''"
        and p = "Some ''SNHU1234''" and h = "''localhost''" and pt = 27017 and au = "''admin''"
        and w = mem0 and e = "invalid_name ''bad name''" and sv = "server mem0"
        and sva = "server mem0" and dbn = "''bad name''" and cn = "''animals''", THEN conjunct2, THEN conjunct2, THEN conjunct2, THEN conjunct2, THEN conjunct1]
    by (simp add: cs mem_engine_def mem_get_database_def)
  have e2: "connect mem_engine (Some ''aacuser'') (Some ''SNHU1234'') ''localhost'' 27017
             ''AAC'' ''a$b'' ''admin'' mem0 =
     (Inl (invalid_name ''a$b''),
      mem0\<lparr>server := server mem0,
           trace := trace mem0 @ [CMongoClient uri0, CGetDatabase (Client uri0) ''AAC'',
             CGetCollection (Database (Client uri0) ''AAC'') ''a$b''],
           logs := logs mem0 @ [(ERROR, [Lit ''Error connecting to MongoDB: '',
                                        FExn (invalid_name ''a$b'')])],
           stdout := stdout mem0 @ [[Lit ''Error connecting to MongoDB: '',
                                     FExn (invalid_name ''a$b'')]]\<rparr>)"
    using construction_fails_fast [where E = mem_engine and u = "Some ''aacuser''"
        and p = "Some ''SNHU1234''" and h = "''localhost''" and pt = 27017 and au = "''admin''"
        and w = mem0 and e = "invalid_name ''a$b''" and sv = "server mem0"
        and sva = "server mem0" and svb = "server mem0" and dbn = "''AAC''" and cn = "''a$b''", THEN conjunct2, THEN conjunct2, THEN conjunct2, THEN conjunct2, THEN conjunct2, THEN conjunct1]
    by (simp add: cs mem_engine_def mem_get_database_def mem_get_collection_def)
  have e3: "connect ping_fails_engine (Some ''aacuser'') (Some ''SNHU1234'') ''localhost'' 27017
             ''AAC'' ''animals'' ''admin'' mem0 =
     (Inl down,
      mem0\<lparr>server := server mem0,
           trace := trace mem0 @
             [CMongoClient uri0, CGetDatabase (Client uri0) ''AAC'',
              CGetCollection (Database (Client uri0) ''AAC'') ''animals'',
              CCommand (Database (Client uri0) ''AAC'') ''ping'' None],
           logs := logs mem0 @ [(ERROR, [Lit ''Error connecting to MongoDB: '', FExn down])],
           stdout := stdout mem0 @ [[Lit ''Error connecting to MongoDB: '', FExn down]]\<rparr>)"
    using construction_fails_fast [where E = ping_fails_engine and u = "Some ''aacuser''"
        and p = "Some ''SNHU1234''" and h = "''localhost''" and pt = 27017 and au = "''admin''"
        and w = mem0 and e = down and sv = "server mem0" and sva = "server mem0"
        and svb = "server mem0" and svc = "server mem0" and dbn = "''AAC''"
        and cn = "''animals''", THEN conjunct2, THEN conjunct2, THEN conjunct2, THEN conjunct2, THEN conjunct2, THEN conjunct2, THEN conjunct1]
    by (simp add: cs ping_fails_engine_def mem_engine_def mem_get_database_def
        mem_get_collection_def)
  have f: "MongoDBCRUD_init mem_engine no_int Map.empty AnimalShelter_defaults mem0 =
     (Inr store0,
      mem0\<lparr>trace := [CMongoClient uri0, CGetDatabase (Client uri0) ''AAC'',
                      CGetCollection (Database (Client uri0) ''AAC'') ''animals'',
                      CCommand (Database (Client uri0) ''AAC'') ''ping'' None],
           logs := [(INFO, [Lit ''Successfully connected to MongoDB: '', FStr ''AAC'', Lit ''.'',
                            FStr ''animals''])],
           stdout := [[Lit ''Connection to MongoDB successful: '', FStr ''AAC'', Lit ''.'',
                       FStr ''animals'']]\<rparr>)"
    by (simp add: c0 connect_def py_defs cs mem_engine_def mem_command_def mem_get_database_def
        mem_get_collection_def mem0_def store0_def Let_def)
  from construction_fails_fast [where E = mem_engine and int_str = no_int and env = Map.empty
      and a = AnimalShelter_defaults and w = mem0 and s = store0, THEN conjunct2, THEN conjunct2, THEN conjunct2, THEN conjunct2, THEN conjunct2, THEN conjunct2, THEN conjunct2] f
  have g: "database store0 = Database (client store0) (database_name store0) \<and>
           collection store0 = Collection (database store0) (collection_name store0)"
    by blast
  show ?thesis
    using a b c0 [of failing_engine world0] c0 [of ping_fails_engine mem0] c1 [of mem_engine mem0]
      c2 [of mem_engine mem0] d e1 e2 e3 f g
    by simp
qed

subsection \<open>Create, then read\<close>

text \<open>
  \<^verbatim>\<open>create\<close> returns \<open>True\<close> exactly when \<^verbatim>\<open>insert_one\<close> returns an identifier
  that is true in Python. After that, with an engine that obeys \<open>insert_find_law\<close>,
  \<^verbatim>\<open>read\<close> on \<^verbatim>\<open>{"_id": i}\<close> returns one document, which has the fields of the
  document given to \<^verbatim>\<open>create\<close> and the identifier: both methods pass their argument to
  the driver as it is, address the same collection, and return what the driver returns.
\<close>

theorem create_read_roundtrip:
  "((fst (create E s (PDict d) w) = Inr True) =
      (\<exists>i sv. eng_insert_one E (collection s) (PDict d) (server w) = (Inr i, sv) \<and> truthy i)) \<and>
   (insert_find_law E \<and> create E s (PDict d) w = (Inr True, w') \<longrightarrow>
      (\<exists>i sv. eng_insert_one E (collection s) (PDict d) (server w) = (Inr i, sv) \<and> truthy i \<and>
         last (logs w') = (INFO, [Lit ''Document inserted with ID: '', FVal i]) \<and>
         (\<exists>doc. fst (read E s (PDict [(''_id'', i)]) w') = Inr [PDict doc] \<and>
                map_of doc = (map_of d)(''_id'' \<mapsto> i))))"
  using create_True_iff [of E s d w] roundtrip [of E s d w w'] by blast

text \<open>The in-memory engine obeys the law; the document \<open>rex\<close> comes back with its identifier.\<close>

theorem create_read_roundtrip_witness:
  "insert_find_law mem_engine \<and>
   create mem_engine store0 (PDict rex) mem0 = (Inr True, mem_rex) \<and>
   eng_insert_one mem_engine (collection store0) (PDict rex) (server mem0) =
     (Inr (PObjectId 0), server mem_rex) \<and>
   (\<exists>doc. fst (read mem_engine store0 (PDict [(''_id'', PObjectId 0)]) mem_rex) = Inr [PDict doc] \<and>
          map_of doc = (map_of rex)(''_id'' \<mapsto> PObjectId 0)) \<and>
   fst (read mem_engine store0 (PDict [(''_id'', PObjectId 0)]) mem_rex) =
     Inr [PDict ((''_id'', PObjectId 0) # rex)]"
proof -
  have ins: "eng_insert_one mem_engine (collection store0) (PDict rex) (server mem0) =
     (Inr (PObjectId 0), server mem_rex)"
    by (simp add: mem_engine_def mem_insert_one_def mem0_def mem_rex_def rex_def selected_def
        Let_def)
  have cr: "create mem_engine store0 (PDict rex) mem0 = (Inr True, mem_rex)"
    by (simp add: create_def py_defs ins) (simp add: mem0_def mem_rex_def)
  from create_read_roundtrip [of mem_engine store0 rex mem0 mem_rex] mem_engine_law cr
  obtain i sv where
    i: "eng_insert_one mem_engine (collection store0) (PDict rex) (server mem0) = (Inr i, sv)"
    and rd: "\<exists>doc. fst (read mem_engine store0 (PDict [(''_id'', i)]) mem_rex) = Inr [PDict doc] \<and>
                map_of doc = (map_of rex)(''_id'' \<mapsto> i)"
    by blast
  from i ins have "i = PObjectId 0" by simp
  with rd have ex: "\<exists>doc. fst (read mem_engine store0 (PDict [(''_id'', PObjectId 0)]) mem_rex) =
       Inr [PDict doc] \<and> map_of doc = (map_of rex)(''_id'' \<mapsto> PObjectId 0)"
    by simp
  have "eng_find mem_engine (collection store0) (PDict [(''_id'', PObjectId 0)]) (server mem_rex) =
          (Inr [PDict ((''_id'', PObjectId 0) # rex)], server mem_rex)"
    by (simp add: mem_engine_def mem_find_def mem_rex_def selected_def matches_def)
  then have "fst (read mem_engine store0 (PDict [(''_id'', PObjectId 0)]) mem_rex) =
     Inr [PDict ((''_id'', PObjectId 0) # rex)]"
    by (simp add: read_dict_eq)
  with mem_engine_law cr ins ex show ?thesis by simp
qed

text \<open>
  C4. The claim says that \<^verbatim>\<open>create\<close> returns \<open>True\<close> exactly when the engine confirms
  an identifier for the new document. The method tests \<^verbatim>\<open>if result.inserted_id:\<close>, the
  truth value of the identifier: when the engine has inserted the document and returns an
  identifier that is false in Python (the number \<open>0\<close>, the empty string, \<^verbatim>\<open>False\<close>),
  \<^verbatim>\<open>create\<close> returns \<open>False\<close>, although its docstring promises \<open>True\<close> for a
  successful insert. Nothing is logged or printed on this path.
\<close>

theorem create_false_after_insert:
  "eng_insert_one E (collection s) (PDict d) (server w) = (Inr i, sv) \<and> \<not> truthy i \<longrightarrow>
   create E s (PDict d) w =
     (Inr False, w\<lparr>server := sv, trace := trace w @ [CInsertOne (collection s) (PDict d)]\<rparr>)"
  using create_falsy [of E s d w i sv] by blast

text \<open>
  The document \<^verbatim>\<open>{"_id": 0, "name": "Rex"}\<close> on the in-memory engine: \<^verbatim>\<open>create\<close>
  returns \<open>False\<close>, and the document is in the collection, as a \<^verbatim>\<open>read\<close> shows.
\<close>

theorem create_false_after_insert_witness:
  "eng_insert_one mem_engine (collection store0) (PDict counter_doc) (server mem0) =
     (Inr (PInt 0), mem_counter) \<and>
   \<not> truthy (PInt 0) \<and>
   create mem_engine store0 (PDict counter_doc) mem0 =
     (Inr False, mem0\<lparr>server := mem_counter,
                     trace := trace mem0 @ [CInsertOne (collection store0) (PDict counter_doc)]\<rparr>) \<and>
   fst (read mem_engine store0 (PDict [(''_id'', PInt 0)])
          (mem0\<lparr>server := mem_counter,
                trace := trace mem0 @ [CInsertOne (collection store0) (PDict counter_doc)]\<rparr>)) =
     Inr [PDict counter_doc]"
proof -
  have ins: "eng_insert_one mem_engine (collection store0) (PDict counter_doc) (server mem0) =
     (Inr (PInt 0), mem_counter)"
    by (simp add: mem_engine_def mem_insert_one_def mem0_def mem_counter_def counter_doc_def
        selected_def Let_def)
  have f: "\<not> truthy (PInt 0)" by simp
  from create_false_after_insert [of mem_engine store0 counter_doc mem0 "PInt 0" mem_counter] ins f
  have cr: "create mem_engine store0 (PDict counter_doc) mem0 =
     (Inr False, mem0\<lparr>server := mem_counter,
                     trace := trace mem0 @ [CInsertOne (collection store0) (PDict counter_doc)]\<rparr>)"
    by blast
  have "eng_find mem_engine (collection store0) (PDict [(''_id'', PInt 0)]) mem_counter =
          (Inr [PDict counter_doc], mem_counter)"
    by (simp add: mem_engine_def mem_find_def mem_counter_def counter_doc_def selected_def
        matches_def)
  then have rd: "fst (read mem_engine store0 (PDict [(''_id'', PInt 0)])
          (mem0\<lparr>server := mem_counter,
                trace := trace mem0 @ [CInsertOne (collection store0) (PDict counter_doc)]\<rparr>)) =
     Inr [PDict counter_doc]"
    by (simp add: read_dict_eq)
  from ins f cr rd show ?thesis by simp
qed

subsection \<open>The queries of the rescue categories\<close>

text \<open>
  C5. For each of the three categories, \<^verbatim>\<open>find_rescue_candidates\<close> is \<^verbatim>\<open>read\<close> on the
  query that the specification states: species Dog; for \<open>water\<close> the four breeds and the
  ages 26 to 156 weeks, for \<open>mountain\<close> the five breeds and 26 to 156, for \<open>disaster\<close>
  the five breeds and 20 to 300. The result and the effects are those of \<^verbatim>\<open>read\<close>; and
  \<^verbatim>\<open>read\<close> returns the list that the driver's \<^verbatim>\<open>find\<close> gives for this query on the
  active collection, unchanged.
\<close>

theorem rescue_criteria_queries:
  "find_rescue_candidates E s ''water'' =
     read E s (criteria_query [''Labrador Retriever Mix'', ''Chesapeake Bay Retriever'',
                               ''Newfoundland'', ''Portuguese Water Dog''] 26 156) \<and>
   find_rescue_candidates E s ''mountain'' =
     read E s (criteria_query [''German Shepherd'', ''Alaskan Malamute'', ''Old English Sheepdog'',
                               ''Siberian Husky'', ''Rottweiler''] 26 156) \<and>
   find_rescue_candidates E s ''disaster'' =
     read E s (criteria_query [''Doberman Pinscher'', ''German Shepherd'', ''Golden Retriever'',
                               ''Bloodhound'', ''Rottweiler''] 20 300) \<and>
   (eng_find E (collection s) (criteria_query bs lo hi) (server w) = (Inr r, sv) \<longrightarrow>
      read E s (criteria_query bs lo hi) w =
        (Inr r, w\<lparr>server := sv,
                  trace := trace w @ [CFind (collection s) (criteria_query bs lo hi)],
                  logs := logs w @ [(INFO, [Lit ''Found '', FInt (int (length r)),
                                            Lit '' documents''])]\<rparr>))"
  using find_water [of E s] find_mountain [of E s] find_disaster [of E s]
    read_criteria_result [of E s bs lo hi w r sv]
  by blast

text \<open>With the engine that answers two dogs, the water query returns these two.\<close>

theorem rescue_criteria_queries_witness:
  "eng_find canned_engine (collection store0)
      (criteria_query [''Labrador Retriever Mix'', ''Chesapeake Bay Retriever'',
                       ''Newfoundland'', ''Portuguese Water Dog''] 26 156) (server mem0) =
     (Inr two_dogs, server mem0) \<and>
   fst (find_rescue_candidates canned_engine store0 ''water'' mem0) = Inr two_dogs \<and>
   trace (snd (find_rescue_candidates canned_engine store0 ''water'' mem0)) =
     [CFind (collection store0)
        (criteria_query [''Labrador Retriever Mix'', ''Chesapeake Bay Retriever'',
                         ''Newfoundland'', ''Portuguese Water Dog''] 26 156)]"
proof -
  have f: "eng_find canned_engine (collection store0)
      (criteria_query [''Labrador Retriever Mix'', ''Chesapeake Bay Retriever'',
                       ''Newfoundland'', ''Portuguese Water Dog''] 26 156) (server mem0) =
     (Inr two_dogs, server mem0)"
    by (simp add: canned_engine_def)
  have t: "trace mem0 = []" by (simp add: mem0_def)
  from rescue_criteria_queries [of canned_engine store0
      "[''Labrador Retriever Mix'', ''Chesapeake Bay Retriever'', ''Newfoundland'',
        ''Portuguese Water Dog'']" 26 156 mem0 two_dogs "server mem0"] f
  have "find_rescue_candidates canned_engine store0 ''water'' mem0 =
        (Inr two_dogs, mem0\<lparr>server := server mem0,
           trace := trace mem0 @ [CFind (collection store0)
             (criteria_query [''Labrador Retriever Mix'', ''Chesapeake Bay Retriever'',
                         ''Newfoundland'', ''Portuguese Water Dog''] 26 156)],
           logs := logs mem0 @ [(INFO, [Lit ''Found '', FInt (int (length two_dogs)),
                                            Lit '' documents''])]\<rparr>)"
    by simp
  with f t show ?thesis by simp
qed

text \<open>
  C6. For every category (a \<^verbatim>\<open>str\<close>, as the docstring has it) other than \<open>water\<close>,
  \<open>mountain\<close> and \<open>disaster\<close>, \<^verbatim>\<open>find_rescue_candidates\<close> returns the empty list;
  the world afterwards differs only by the printed line, so \<^verbatim>\<open>read\<close> was not called and
  the driver received no query.
\<close>

theorem unknown_category_no_query:
  "t \<noteq> ''water'' \<and> t \<noteq> ''mountain'' \<and> t \<noteq> ''disaster'' \<longrightarrow>
   find_rescue_candidates E s t w =
     (Inr [], w\<lparr>stdout := stdout w @ [[Lit ''Unknown rescue type: '', FStr t]]\<rparr>)"
  using find_rescue_candidates_unknown [of t E s w] by blast

text \<open>An unknown category on the engine that would answer two dogs to any query.\<close>

theorem unknown_category_no_query_witness:
  "''unknown-category'' \<noteq> ''water'' \<and> ''unknown-category'' \<noteq> ''mountain'' \<and>
   ''unknown-category'' \<noteq> ''disaster'' \<and>
   fst (find_rescue_candidates canned_engine store0 ''unknown-category'' mem0) = Inr [] \<and>
   trace (snd (find_rescue_candidates canned_engine store0 ''unknown-category'' mem0)) = [] \<and>
   server (snd (find_rescue_candidates canned_engine store0 ''unknown-category'' mem0)) = server mem0"
proof -
  have h: "''unknown-category'' \<noteq> ''water'' \<and> ''unknown-category'' \<noteq> ''mountain'' \<and>
   ''unknown-category'' \<noteq> ''disaster''" by simp
  have t: "trace mem0 = []" by (simp add: mem0_def)
  from unknown_category_no_query [of "''unknown-category''" canned_engine store0 mem0] h
  have "find_rescue_candidates canned_engine store0 ''unknown-category'' mem0 =
     (Inr [], mem0\<lparr>stdout := stdout mem0 @ [[Lit ''Unknown rescue type: '',
        FStr ''unknown-category'']]\<rparr>)"
    by blast
  with h t show ?thesis by simp
qed

subsection \<open>Switching the collection and the database\<close>

text \<open>
  C7, as stated, fails: it speaks of every collection name, and the driver refuses some.
  \<^verbatim>\<open>switch_collection\<close> assigns the name, then asks the driver for the handle, outside
  any \<^verbatim>\<open>try\<close>. With the empty name on the in-memory engine the call raises; the object
  then has the new name and the handle of before, and a \<^verbatim>\<open>read\<close> that follows addresses
  the collection \<open>animals\<close>.
\<close>

theorem switch_collection_counterexample:
  "fst (switch_collection mem_engine store0 [] mem0) = Inl (invalid_name []) \<and>
   fst (snd (switch_collection mem_engine store0 [] mem0)) = store_unnamed \<and>
   collection_name store_unnamed = [] \<and>
   collection store_unnamed = Collection (Database (Client uri0) ''AAC'') ''animals'' \<and>
   trace (snd (snd (exec mem_engine (OpRead PNone) store_unnamed mem0))) =
     [CFind (Collection (Database (Client uri0) ''AAC'') ''animals'') (PDict [])]"
  by (simp add: switch_collection_def set_collection_def py_defs Let_def mem_engine_def
      mem_get_collection_def mem_find_def read_def store_unnamed_def store0_def mem0_def
      split: prod.splits)

text \<open>
  C7, amended. When the driver accepts \<open>X\<close> as the name of a collection of the active
  database, \<^verbatim>\<open>switch_collection(X)\<close> returns normally and assigns the collection name and
  the collection handle, the handle being that of \<open>X\<close> in the database that was active;
  every other attribute (database name, database handle, client and the rest) is as before.
  On the object after the switch, every driver call of every sequence of calls to the other
  methods addresses the collection \<open>X\<close> of that database (or is the client's
  \<^verbatim>\<open>close\<close>). When the driver accepts \<open>D\<close> as the name of a database and the present
  collection name as the name of a collection of it, \<^verbatim>\<open>switch_database(D)\<close> without a
  collection name assigns the database name and handle and binds the collection handle to
  the collection of the present name in \<open>D\<close>.
\<close>

theorem switch_rebinds_collection:
  "(eng_get_collection E (database s) X (server w) = (Inr (), sv) \<longrightarrow>
      switch_collection E s X w =
        (Inr (), s\<lparr>collection_name := X, collection := Collection (database s) X\<rparr>,
         w\<lparr>server := sv, trace := trace w @ [CGetCollection (database s) X],
           stdout := stdout w @ [[Lit ''Switched to collection: '', FStr X]]\<rparr>)) \<and>
   (list_all (\<lambda>x. \<not> is_switch x) xs \<longrightarrow>
      (\<exists>cs wa. run E xs (s\<lparr>collection_name := X, collection := Collection (database s) X\<rparr>) wb =
               (Inr (), s\<lparr>collection_name := X, collection := Collection (database s) X\<rparr>, wa) \<and>
            trace wa = trace wb @ cs \<and>
            (\<forall>c\<in>set cs. c = CClose (client s) \<or>
                addressed c = Some (Collection (database s) X)))) \<and>
   (eng_get_database E (client s) D (server w) = (Inr (), sv) \<and>
    eng_get_collection E (Database (client s) D) (collection_name s) sv = (Inr (), sva) \<longrightarrow>
      switch_database E s D None w =
        (Inr (), s\<lparr>database_name := D, database := Database (client s) D,
                    collection := Collection (Database (client s) D) (collection_name s)\<rparr>,
         w\<lparr>server := sva,
           trace := trace w @ [CGetDatabase (client s) D,
                               CGetCollection (Database (client s) D) (collection_name s)],
           stdout := stdout w @ [[Lit ''Switched to database: '', FStr D, Lit ''.'',
                                   FStr (collection_name s)]]\<rparr>))"
  using switch_collection_ok [of E s X w sv] switch_database_None_ok [of E s D w sv sva]
    run_not_switch [of xs E "s\<lparr>collection_name := X, collection := Collection (database s) X\<rparr>" wb]
  by simp

text \<open>
  After a switch to \<open>outcomes\<close>, an insert, a read and the statistics all go to
  \<open>AAC.outcomes\<close>; a switch to the database \<open>Shelter\<close> keeps the name \<open>animals\<close>.
\<close>

theorem switch_rebinds_collection_witness:
  "eng_get_collection mem_engine (database store0) ''outcomes'' (server mem0) =
     (Inr (), server mem0) \<and>
   fst (switch_collection mem_engine store0 ''outcomes'' mem0) = Inr () \<and>
   fst (snd (switch_collection mem_engine store0 ''outcomes'' mem0)) = store_outcomes \<and>
   list_all (\<lambda>x. \<not> is_switch x) [OpCreate (PDict rex), OpRead PNone, OpGetCollectionInfo] \<and>
   fst (run mem_engine [OpCreate (PDict rex), OpRead PNone, OpGetCollectionInfo]
          store_outcomes mem0) = Inr () \<and>
   fst (snd (run mem_engine [OpCreate (PDict rex), OpRead PNone, OpGetCollectionInfo]
          store_outcomes mem0)) = store_outcomes \<and>
   trace (snd (snd (run mem_engine [OpCreate (PDict rex), OpRead PNone, OpGetCollectionInfo]
                 store_outcomes mem0))) =
     [CInsertOne (Collection (Database (Client uri0) ''AAC'') ''outcomes'') (PDict rex),
      CFind (Collection (Database (Client uri0) ''AAC'') ''outcomes'') (PDict []),
      CCommand (Database (Client uri0) ''AAC'') ''collStats'' (Some ''outcomes'')] \<and>
   fst (switch_database mem_engine store0 ''Shelter'' None mem0) = Inr () \<and>
   fst (snd (switch_database mem_engine store0 ''Shelter'' None mem0)) = store_shelter \<and>
   collection_name store_shelter = collection_name store0"
proof -
  have so: "store0\<lparr>collection_name := ''outcomes'',
                   collection := Collection (database store0) ''outcomes''\<rparr> = store_outcomes"
    by (simp add: store_outcomes_def store0_def)
  have ss: "store0\<lparr>database_name := ''Shelter'', database := Database (client store0) ''Shelter'',
             collection := Collection (Database (client store0) ''Shelter'')
               (collection_name store0)\<rparr> = store_shelter"
    by (simp add: store_shelter_def store0_def)
  have la: "list_all (\<lambda>x. \<not> is_switch x) [OpCreate (PDict rex), OpRead PNone, OpGetCollectionInfo]"
    by simp
  have h1: "eng_get_collection mem_engine (database store0) ''outcomes'' (server mem0) =
     (Inr (), server mem0)"
    by (simp add: mem_engine_def mem_get_collection_def)
  have h2: "eng_get_database mem_engine (client store0) ''Shelter'' (server mem0) =
     (Inr (), server mem0)"
    by (simp add: mem_engine_def mem_get_database_def)
  have h3: "eng_get_collection mem_engine (Database (client store0) ''Shelter'')
              (collection_name store0) (server mem0) = (Inr (), server mem0)"
    by (simp add: mem_engine_def mem_get_collection_def store0_def)
  note T = switch_rebinds_collection [of mem_engine store0 "''outcomes''" mem0 "server mem0"
      "[OpCreate (PDict rex), OpRead PNone, OpGetCollectionInfo]" mem0 "''Shelter''" "server mem0"]
  from T h1 have a: "switch_collection mem_engine store0 ''outcomes'' mem0 =
     (Inr (), store_outcomes,
      mem0\<lparr>server := server mem0,
           trace := trace mem0 @ [CGetCollection (database store0) ''outcomes''],
           stdout := stdout mem0 @ [[Lit ''Switched to collection: '', FStr ''outcomes'']]\<rparr>)"
    by (simp add: so)
  from T la obtain cs wa where b: "run mem_engine [OpCreate (PDict rex), OpRead PNone,
      OpGetCollectionInfo] store_outcomes mem0 = (Inr (), store_outcomes, wa)"
    unfolding so by blast
  from T h2 h3 have c: "switch_database mem_engine store0 ''Shelter'' None mem0 =
     (Inr (), store_shelter,
      mem0\<lparr>server := server mem0,
           trace := trace mem0 @ [CGetDatabase (client store0) ''Shelter'',
                               CGetCollection (Database (client store0) ''Shelter'')
                                 (collection_name store0)],
           stdout := stdout mem0 @ [[Lit ''Switched to database: '', FStr ''Shelter'', Lit ''.'',
                                FStr (collection_name store0)]]\<rparr>)"
    by (simp add: ss)
  have d: "trace (snd (snd (run mem_engine [OpCreate (PDict rex), OpRead PNone, OpGetCollectionInfo]
                 store_outcomes mem0))) =
     [CInsertOne (Collection (Database (Client uri0) ''AAC'') ''outcomes'') (PDict rex),
      CFind (Collection (Database (Client uri0) ''AAC'') ''outcomes'') (PDict []),
      CCommand (Database (Client uri0) ''AAC'') ''collStats'' (Some ''outcomes'')]"
    by (simp add: create_def read_def get_collection_info_def py_defs mem_engine_def
        mem_insert_one_def mem_find_def mem_command_def selected_def matches_def rex_def
        store_outcomes_def store0_def mem0_def Let_def)
  have e: "collection_name store_shelter = collection_name store0"
    by (simp add: store_shelter_def)
  from a b c d e la h1 show ?thesis by simp
qed

subsection \<open>What the methods leave unchanged\<close>

text \<open>
  C8, as stated, fails: the claim counts the database name and the collection name among the
  attributes that nothing changes after construction, and the two switch methods assign them.
\<close>

theorem config_immutable_counterexample:
  "fst (switch_collection mem_engine store0 ''outcomes'' mem0) = Inr () \<and>
   fst (snd (switch_collection mem_engine store0 ''outcomes'' mem0)) = store_outcomes \<and>
   collection_name store_outcomes \<noteq> collection_name store0 \<and>
   fst (switch_database mem_engine store0 ''Shelter'' None mem0) = Inr () \<and>
   fst (snd (switch_database mem_engine store0 ''Shelter'' None mem0)) = store_shelter \<and>
   database_name store_shelter \<noteq> database_name store0"
  by (simp add: switch_collection_def switch_database_def set_collection_def set_database_def
      py_defs Let_def mem_engine_def mem_get_collection_def mem_get_database_def
      store_outcomes_def store_shelter_def store0_def)

text \<open>
  C8, amended. Whatever sequence of methods is called on a constructed object, and whether
  it ends normally or with an exception, the user name, the password, the host, the port and
  the authentication source stay as the constructor set them; the database name and the
  collection name stay as they are along every sequence that calls neither
  \<^verbatim>\<open>switch_collection\<close> nor \<^verbatim>\<open>switch_database\<close>.
\<close>

theorem connection_fields_preserved:
  "run E xs s w = (r, s', w') \<longrightarrow>
     username s' = username s \<and> password s' = password s \<and> host s' = host s \<and>
     port s' = port s \<and> auth_source s' = auth_source s \<and>
     (list_all (\<lambda>x. \<not> is_switch x) xs \<longrightarrow>
        database_name s' = database_name s \<and> collection_name s' = collection_name s)"
proof (intro impI conjI)
  assume r: "run E xs s w = (r, s', w')"
  from run_config [OF this]
  show "username s' = username s" and "password s' = password s" and "host s' = host s"
    and "port s' = port s" and "auth_source s' = auth_source s"
    by simp_all
  assume "list_all (\<lambda>x. \<not> is_switch x) xs"
  from run_not_switch [OF this, of E s w] r have "s' = s" by auto
  then show "database_name s' = database_name s" and "collection_name s' = collection_name s"
    by simp_all
qed

text \<open>A sequence with a switch, a switch that raises, and a sequence without a switch.\<close>

theorem connection_fields_preserved_witness:
  "fst (run mem_engine [OpCreate (PDict rex), OpSwitchCollection ''outcomes'', OpRead PNone]
          store0 mem0) = Inr () \<and>
   fst (snd (run mem_engine [OpCreate (PDict rex), OpSwitchCollection ''outcomes'', OpRead PNone]
          store0 mem0)) = store_outcomes \<and>
   username store_outcomes = username store0 \<and> password store_outcomes = password store0 \<and>
   host store_outcomes = host store0 \<and> port store_outcomes = port store0 \<and>
   auth_source store_outcomes = auth_source store0 \<and>
   fst (run mem_engine [OpSwitchCollection []] store0 mem0) = Inl (invalid_name []) \<and>
   fst (snd (run mem_engine [OpSwitchCollection []] store0 mem0)) = store_unnamed \<and>
   username store_unnamed = username store0 \<and> password store_unnamed = password store0 \<and>
   host store_unnamed = host store0 \<and> port store_unnamed = port store0 \<and>
   auth_source store_unnamed = auth_source store0 \<and>
   list_all (\<lambda>x. \<not> is_switch x) [OpCreate (PDict rex), OpRead PNone] \<and>
   fst (snd (run mem_engine [OpCreate (PDict rex), OpRead PNone] store0 mem0)) = store0 \<and>
   database_name store0 = ''AAC'' \<and> collection_name store0 = ''animals''"
proof -
  obtain r1 w1 where a: "run mem_engine
      [OpCreate (PDict rex), OpSwitchCollection ''outcomes'', OpRead PNone] store0 mem0 =
      (r1, store_outcomes, w1)" and r1: "r1 = Inr ()"
    by (simp add: create_def read_def switch_collection_def set_collection_def py_defs
        mem_engine_def mem_insert_one_def mem_find_def mem_get_collection_def selected_def
        matches_def rex_def store_outcomes_def store0_def mem0_def Let_def)
  obtain r2 w2 where b: "run mem_engine [OpSwitchCollection []] store0 mem0 =
      (r2, store_unnamed, w2)" and r2: "r2 = Inl (invalid_name [])"
    by (simp add: switch_collection_def set_collection_def py_defs
        mem_engine_def mem_get_collection_def store_unnamed_def Let_def)
  obtain r3 s3 w3 where c: "run mem_engine [OpCreate (PDict rex), OpRead PNone] store0 mem0 =
      (r3, s3, w3)"
    by (cases "run mem_engine [OpCreate (PDict rex), OpRead PNone] store0 mem0") auto
  have la: "list_all (\<lambda>x. \<not> is_switch x) [OpCreate (PDict rex), OpRead PNone]" by simp
  from connection_fields_preserved [of mem_engine
      "[OpCreate (PDict rex), OpSwitchCollection ''outcomes'', OpRead PNone]" store0 mem0
      r1 store_outcomes w1] a
  have ka: "username store_outcomes = username store0 \<and> password store_outcomes = password store0 \<and>
   host store_outcomes = host store0 \<and> port store_outcomes = port store0 \<and>
   auth_source store_outcomes = auth_source store0"
    by blast
  from connection_fields_preserved [of mem_engine "[OpSwitchCollection []]" store0 mem0
      r2 store_unnamed w2] b
  have kb: "username store_unnamed = username store0 \<and> password store_unnamed = password store0 \<and>
   host store_unnamed = host store0 \<and> port store_unnamed = port store0 \<and>
   auth_source store_unnamed = auth_source store0"
    by blast
  from connection_fields_preserved [of mem_engine "[OpCreate (PDict rex), OpRead PNone]"
      store0 mem0 r3 s3 w3] c la
  have kc: "database_name s3 = database_name store0 \<and> collection_name s3 = collection_name store0"
    by blast
  have s3: "s3 = store0" using c
    by (simp add: create_def read_def py_defs split: prod.splits sum.splits if_splits)
  have d: "database_name store0 = ''AAC'' \<and> collection_name store0 = ''animals''"
    by (simp add: store0_def)
  from a r1 b r2 c s3 ka kb d la show ?thesis by simp
qed

subsection \<open>Closing the connection\<close>

text \<open>
  C9. \<^verbatim>\<open>close_connection\<close> returns \<^verbatim>\<open>None\<close> and never raises, for every engine, object
  and world; when the client's \<^verbatim>\<open>close\<close> raises, the exception is recorded by the logger
  at level ERROR (and printed); and any number of calls in a row returns normally and leaves
  the object as it was.
\<close>

theorem close_connection_never_raises:
  "fst (close_connection E s w) = Inr () \<and>
   (eng_close E (client s) (server w) = (Inl e, sv) \<longrightarrow>
      close_connection E s w =
        (Inr (), w\<lparr>server := sv, trace := trace w @ [CClose (client s)],
                   logs := logs w @ [(ERROR, [Lit ''Error closing connection: '', FExn e])],
                   stdout := stdout w @ [[Lit ''Error closing connection: '', FExn e]]\<rparr>)) \<and>
   fst (run E (replicate n OpCloseConnection) s w) = Inr () \<and>
   fst (snd (run E (replicate n OpCloseConnection) s w)) = s"
proof -
  have "list_all (\<lambda>x. \<not> is_switch x) (replicate n OpCloseConnection)"
    by (simp add: list_all_iff)
  from run_not_switch [OF this, of E s w]
  have "fst (run E (replicate n OpCloseConnection) s w) = Inr () \<and>
        fst (snd (run E (replicate n OpCloseConnection) s w)) = s" by auto
  with close_connection_returns [of E s w] close_connection_fault [of E s w e sv]
  show ?thesis by blast
qed

text \<open>Three calls in a row on the engine whose \<^verbatim>\<open>close\<close> raises.\<close>

theorem close_connection_never_raises_witness:
  "eng_close failing_engine (client store0) (server world0) = (Inl down, ()) \<and>
   close_connection failing_engine store0 world0 =
     (Inr (), world0\<lparr>server := (), trace := trace world0 @ [CClose (client store0)],
                logs := logs world0 @ [(ERROR, [Lit ''Error closing connection: '', FExn down])],
                stdout := stdout world0 @ [[Lit ''Error closing connection: '', FExn down]]\<rparr>) \<and>
   fst (run failing_engine [OpCloseConnection, OpCloseConnection, OpCloseConnection]
          store0 world0) = Inr () \<and>
   fst (snd (run failing_engine [OpCloseConnection, OpCloseConnection, OpCloseConnection]
          store0 world0)) = store0"
proof -
  have h: "eng_close failing_engine (client store0) (server world0) = (Inl down, ())"
    by (simp add: failing_engine_def)
  have r: "replicate 3 OpCloseConnection = [OpCloseConnection, OpCloseConnection, OpCloseConnection]"
    by (simp add: numeral_3_eq_3)
  note T = close_connection_never_raises [of failing_engine store0 world0 down "()" 3]
  from T h have a: "close_connection failing_engine store0 world0 =
     (Inr (), world0\<lparr>server := (), trace := trace world0 @ [CClose (client store0)],
                logs := logs world0 @ [(ERROR, [Lit ''Error closing connection: '', FExn down])],
                stdout := stdout world0 @ [[Lit ''Error closing connection: '', FExn down]]\<rparr>)"
    by blast
  from T have "fst (run failing_engine (replicate 3 OpCloseConnection) store0 world0) = Inr () \<and>
    fst (snd (run failing_engine (replicate 3 OpCloseConnection) store0 world0)) = store0"
    by blast
  then have b: "fst (run failing_engine [OpCloseConnection, OpCloseConnection, OpCloseConnection]
          store0 world0) = Inr () \<and>
   fst (snd (run failing_engine [OpCloseConnection, OpCloseConnection, OpCloseConnection]
          store0 world0)) = store0"
    unfolding r .
  from h a b show ?thesis by blast
qed

subsection \<open>The argument policy of count_documents\<close>

text \<open>
  C10. A query that is neither \<^verbatim>\<open>None\<close> nor a dict makes \<^verbatim>\<open>count_documents\<close>
  return \<open>0\<close> with no driver call (one line is printed; unlike the four CRUD methods,
  nothing goes to the logger). A \<^verbatim>\<open>None\<close> query is the empty dict, which matches
  every document: the call behaves as with \<open>PDict []\<close>, and the driver is called with it.
\<close>

theorem count_documents_argument_policy:
  "(q \<noteq> PNone \<and> \<not> isinstance_dict q \<longrightarrow>
      count_documents E s q w =
        (Inr 0, w\<lparr>stdout := stdout w @ [[Lit ''Error: Query parameter must be a dictionary'']]\<rparr>)) \<and>
   count_documents E s PNone w = count_documents E s (PDict []) w \<and>
   trace (snd (count_documents E s PNone w)) = trace w @ [CCountDocuments (collection s) (PDict [])]"
  using count_documents_invalid [of q E s w] count_documents_None [of E s]
    count_documents_dict_trace [of E s "[]" w]
  by simp

text \<open>A list as the query; and \<^verbatim>\<open>None\<close>, which reaches the driver as the empty dict.\<close>

theorem count_documents_argument_policy_witness:
  "PList [] \<noteq> PNone \<and> \<not> isinstance_dict (PList []) \<and>
   fst (count_documents mem_engine store0 (PList []) mem0) = Inr 0 \<and>
   trace (snd (count_documents mem_engine store0 (PList []) mem0)) = [] \<and>
   trace (snd (count_documents mem_engine store0 PNone mem0)) =
     [CCountDocuments (collection store0) (PDict [])]"
proof -
  have t: "trace mem0 = []" by (simp add: mem0_def)
  have h: "PList [] \<noteq> PNone \<and> \<not> isinstance_dict (PList [])" by simp
  from count_documents_argument_policy [of "PList []" mem_engine store0 mem0] h
  have a: "count_documents mem_engine store0 (PList []) mem0 =
             (Inr 0, mem0\<lparr>stdout := stdout mem0 @
                [[Lit ''Error: Query parameter must be a dictionary'']]\<rparr>)"
    and c: "trace (snd (count_documents mem_engine store0 PNone mem0)) =
              trace mem0 @ [CCountDocuments (collection store0) (PDict [])]"
    by blast+
  show ?thesis by (simp add: a c t)
qed

end
